theory Spec2Isabelle
  imports Main
begin

section \<open>Python values\<close>

text \<open>
  A Python \<open>str\<close> is the list of its Unicode code points, so that equality, slicing and
  concatenation count what Python counts. \<open>ustr\<close> turns an ASCII literal of the source
  into such a string.
\<close>

type_synonym pystr = "nat list"

definition ustr :: "string \<Rightarrow> pystr" where
  "ustr s = map of_char s"

text \<open>
  What \<open>response.json()\<close> decodes to. A dict is kept as an association list that is read
  with \<open>map_of\<close>. The numbers of the payloads are integers (the dataclasses annotate every
  numeric field with \<open>int\<close>); JSON numbers with a fraction are not part of the model.
\<close>

datatype json =
    JNull
  | JBool bool
  | JInt int
  | JStr pystr
  | JList "json list"
  | JDict "(pystr \<times> json) list"

text \<open>
  The exceptions. \<open>IllTypedField\<close> is not a Python exception: it marks a run in which a
  payload field does not have the type its dataclass annotation declares (Python would
  store the value unchecked); such runs are outside the typed data model. Of the others,
  only \<open>KeyboardInterrupt\<close> is not a subclass of \<open>Exception\<close>.
\<close>

datatype error =
    AssertionError
  | KeyError
  | TypeError
  | JSONDecodeError
  | ConnectionError
  | WebDriverException
  | EOFError
  | KeyboardInterrupt
  | IllTypedField

definition is_Exception :: "error \<Rightarrow> bool" where
  "is_Exception e = (e \<noteq> KeyboardInterrupt)"

definition and_then :: "error + 'a \<Rightarrow> ('a \<Rightarrow> error + 'b) \<Rightarrow> error + 'b" where
  "and_then m f = (case m of Inl e \<Rightarrow> Inl e | Inr x \<Rightarrow> f x)"

text \<open>\<open>obj[key]\<close> with a \<open>str\<close> key: only a dict can be subscripted with it.\<close>

fun py_getitem :: "json \<Rightarrow> pystr \<Rightarrow> error + json" where
  "py_getitem (JDict kvs) k = (case map_of kvs k of None \<Rightarrow> Inl KeyError | Some v \<Rightarrow> Inr v)"
| "py_getitem JNull k = Inl TypeError"
| "py_getitem (JBool b) k = Inl TypeError"
| "py_getitem (JInt i) k = Inl TypeError"
| "py_getitem (JStr s) k = Inl TypeError"
| "py_getitem (JList xs) k = Inl TypeError"

text \<open>\<open>v == n\<close> for an integer \<open>n\<close>: \<open>True == 1\<close> and \<open>False == 0\<close> hold in Python.\<close>

fun py_eq_int :: "json \<Rightarrow> int \<Rightarrow> bool" where
  "py_eq_int (JInt i) n = (i = n)"
| "py_eq_int (JBool b) n = ((if b then 1 else 0) = n)"
| "py_eq_int JNull n = False"
| "py_eq_int (JStr s) n = False"
| "py_eq_int (JList xs) n = False"
| "py_eq_int (JDict kvs) n = False"


text \<open>
  \<open>for data in v\<close>: a list yields its elements, a dict its keys, a str its characters;
  nothing else is iterable.
\<close>

fun py_iter :: "json \<Rightarrow> error + json list" where
  "py_iter (JList xs) = Inr xs"
| "py_iter (JDict kvs) = Inr (map (\<lambda>kv. JStr (fst kv)) kvs)"
| "py_iter (JStr s) = Inr (map (\<lambda>c. JStr [c]) s)"
| "py_iter JNull = Inl TypeError"
| "py_iter (JBool b) = Inl TypeError"
| "py_iter (JInt i) = Inl TypeError"

text \<open>Reading a payload value into a field annotated \<open>int\<close> or \<open>str\<close>.\<close>

fun as_int :: "json \<Rightarrow> error + int" where
  "as_int (JInt i) = Inr i"
| "as_int JNull = Inl IllTypedField"
| "as_int (JBool b) = Inl IllTypedField"
| "as_int (JStr s) = Inl IllTypedField"
| "as_int (JList xs) = Inl IllTypedField"
| "as_int (JDict kvs) = Inl IllTypedField"

fun as_str :: "json \<Rightarrow> error + pystr" where
  "as_str (JStr s) = Inr s"
| "as_str JNull = Inl IllTypedField"
| "as_str (JBool b) = Inl IllTypedField"
| "as_str (JInt i) = Inl IllTypedField"
| "as_str (JList xs) = Inl IllTypedField"
| "as_str (JDict kvs) = Inl IllTypedField"

definition get_int :: "json \<Rightarrow> pystr \<Rightarrow> error + int" where
  "get_int data k = and_then (py_getitem data k) as_int"

definition get_str :: "json \<Rightarrow> pystr \<Rightarrow> error + pystr" where
  "get_str data k = and_then (py_getitem data k) as_str"


text \<open>\<open>str(i)\<close> for an \<open>int\<close>.\<close>

fun str_nat :: "nat \<Rightarrow> pystr" where
  "str_nat n = (if n < 10 then [48 + n] else str_nat (n div 10) @ [48 + n mod 10])"

declare str_nat.simps [simp del]

definition str_int :: "int \<Rightarrow> pystr" where
  "str_int i = (if i < 0 then 45 # str_nat (nat (- i)) else str_nat (nat i))"

section \<open>The HTTP session\<close>

text \<open>
  \<open>LibQuery\<close> holds the cookie jar of the \<open>requests.Session\<close> and the fixed headers. The
  remote side is a function from the request to the response, or to the exception that
  \<open>session.get\<close> raises when no response arrives; \<open>sent\<close> logs the requests issued so far.
  \<open>json_body\<close> is the decoded body, \<open>None\<close> when \<open>response.json()\<close> raises.
\<close>

record cookie =
  ck_name :: pystr
  ck_value :: pystr
  ck_domain :: pystr
  ck_path :: pystr

record LibQuery =
  lq_session :: "cookie list"
  lq_headers :: "(pystr \<times> pystr) list"

record request =
  req_url :: pystr
  req_headers :: "(pystr \<times> pystr) list"
  req_cookies :: "cookie list"
  req_params :: "(pystr \<times> json) list option"

record response =
  status_code :: int
  json_body :: "json option"

text \<open>
  \<open>clock\<close> is \<open>time.time()\<close> in whole seconds since the epoch and \<open>utc_offset\<close> the local
  zone: the offset from UTC, in seconds, in force at an instant.
\<close>

record world =
  clock :: int
  utc_offset :: "int \<Rightarrow> int"
  server :: "request \<Rightarrow> error + response"
  sent :: "request list"

definition session_get :: "world \<Rightarrow> request \<Rightarrow> (error + response) \<times> world" where
  "session_get w req = (server w req, w\<lparr>sent := sent w @ [req]\<rparr>)"

definition LIBRARY_PREFIX :: pystr where
  "LIBRARY_PREFIX = ustr ''https://webvpn.tsinghua.edu.cn/https/77726476706e69737468656265737421e3f24088693c6152301c9aa596522b204c02212b859d0a19''"

definition LIBRARY_LIST_URL :: pystr where
  "LIBRARY_LIST_URL = LIBRARY_PREFIX @ ustr ''/api.php/areas/1/tree/1''"

definition LIBRARY_AREAS_URL :: pystr where
  "LIBRARY_AREAS_URL = LIBRARY_PREFIX @ ustr ''/api.php/areas/''"

definition LIBRARY_SEATS_URL :: pystr where
  "LIBRARY_SEATS_URL = LIBRARY_PREFIX @ ustr ''/api.php/spaces_old/''"


definition get_request :: "LibQuery \<Rightarrow> pystr \<Rightarrow> (pystr \<times> json) list option \<Rightarrow> request" where
  "get_request self u ps =
     \<lparr>req_url = u, req_headers = lq_headers self, req_cookies = lq_session self, req_params = ps\<rparr>"

definition get_json ::
  "LibQuery \<Rightarrow> world \<Rightarrow> pystr \<Rightarrow> (pystr \<times> json) list option \<Rightarrow> (error + json) \<times> world" where
  "get_json self w u ps =
     (let (r, w') = session_get w (get_request self u ps) in
        (and_then r (\<lambda>resp.
           if status_code resp \<noteq> 200 then Inl AssertionError
           else case json_body resp of
                  None \<Rightarrow> Inl JSONDecodeError
                | Some response_json \<Rightarrow>
                    and_then (py_getitem response_json (ustr ''status''))
                      (\<lambda>st. if py_eq_int st 1 then Inr response_json else Inl AssertionError)),
         w'))"

section \<open>Local time\<close>

text \<open>
  \<open>time.localtime\<close> and \<open>time.strftime\<close> of the standard library, for the two formats the
  source uses. The civil date of a day number (days since 1970-01-01, local time) is found
  by walking whole years from 1970 and then whole months of that year.
\<close>

definition is_leap :: "int \<Rightarrow> bool" where
  "is_leap y = (if y mod 100 = 0 then y mod 400 = 0 else y mod 4 = 0)"

definition days_in_year :: "int \<Rightarrow> int" where
  "days_in_year y = (if is_leap y then 366 else 365)"

definition month_lengths :: "int \<Rightarrow> int list" where
  "month_lengths y = [31, if is_leap y then 29 else 28, 31, 30, 31, 30, 31, 31, 30, 31, 30, 31]"

function year_of :: "int \<Rightarrow> int \<Rightarrow> int \<times> int" where
  "year_of y d =
     (if d < 0 then year_of (y - 1) (d + days_in_year (y - 1))
      else if days_in_year y \<le> d then year_of (y + 1) (d - days_in_year y)
      else (y, d))"
  by pat_completeness auto
termination
  by (relation "measure (\<lambda>(y, d). if d < 0 then nat (- d) + 366 else nat d)")
     (auto simp: days_in_year_def split: if_splits)

declare year_of.simps [simp del]

fun month_day :: "int list \<Rightarrow> int \<Rightarrow> int \<Rightarrow> int \<times> int" where
  "month_day [] m r = (m, r + 1)"
| "month_day (l # ls) m r = (if r < l then (m, r + 1) else month_day ls (m + 1) (r - l))"

record struct_time =
  tm_year :: int
  tm_mon :: int
  tm_mday :: int
  tm_hour :: int
  tm_min :: int
  tm_sec :: int

definition civil :: "int \<Rightarrow> int \<times> int \<times> int" where
  "civil n = (let (y, r) = year_of 1970 n; (m, d) = month_day (month_lengths y) 1 r in (y, m, d))"

definition localtime :: "(int \<Rightarrow> int) \<Rightarrow> int \<Rightarrow> struct_time" where
  "localtime tz t =
     (let loc = t + tz t;
          (y, m, d) = civil (loc div 86400);
          s = loc mod 86400
      in \<lparr>tm_year = y, tm_mon = m, tm_mday = d,
          tm_hour = s div 3600, tm_min = s mod 3600 div 60, tm_sec = s mod 60\<rparr>)"

definition pad2 :: "int \<Rightarrow> pystr" where
  "pad2 n = [48 + nat (n div 10), 48 + nat (n mod 10)]"

text \<open>\<open>time.strftime("%Y-%m-%d", t)\<close> and \<open>time.strftime("%H:%M", t)\<close>.\<close>

definition strftime_Ymd :: "struct_time \<Rightarrow> pystr" where
  "strftime_Ymd t = str_int (tm_year t) @ ustr ''-'' @ pad2 (tm_mon t) @ ustr ''-'' @ pad2 (tm_mday t)"

definition strftime_HM :: "struct_time \<Rightarrow> pystr" where
  "strftime_HM t = pad2 (tm_hour t) @ ustr '':'' @ pad2 (tm_min t)"

datatype Day = Today | Tomorrow

text \<open>
  The date expression that \<open>get_library_sections\<close> and \<open>get_library_day\<close> both start with:
  \<open>time.strftime("%Y-%m-%d", time.localtime(time.time() + (86400 if day == day.Tomorrow else 0)))\<close>.
\<close>

definition date_of_day :: "world \<Rightarrow> Day \<Rightarrow> pystr" where
  "date_of_day w day =
     strftime_Ymd (localtime (utc_offset w) (clock w + (if day = Tomorrow then 86400 else 0)))"

section \<open>The entities\<close>

text \<open>The dataclasses of the source; each field carries the name of its class as a prefix.\<close>

record Library =
  lib_id :: int
  lib_name :: pystr
  lib_nameMerge :: pystr
  lib_enname :: pystr
  lib_ennameMerge :: pystr

record LibraryFloor =
  floor_id :: int
  floor_name :: pystr
  floor_enname :: pystr
  floor_parent :: int

record LibrarySection =
  sec_id :: int
  sec_name :: pystr
  sec_enname :: pystr
  sec_total :: int
  sec_available :: int
  sec_parent :: int

record LibraryDay =
  day_id :: int
  day_date :: pystr
  day_startTime :: pystr
  day_endTime :: pystr
  day_day :: Day

record LibrarySeat =
  seat_id :: int
  seat_name :: pystr
  seat_type :: int
  seat_status :: int
  seat_parent :: int

text \<open>
  \<open>status_dict\<close>: the labels are given by their code points. The source only defines the
  table; no function of the source subscripts it.
\<close>

definition status_dict :: "int \<rightharpoonup> pystr" where
  "status_dict =
     [1 \<mapsto> [0x7A7A, 0x95F2],
      4 \<mapsto> [0x7EF4, 0x62A4],
      6 \<mapsto> [0x4F7F, 0x7528, 0x4E2D],
      7 \<mapsto> [0x4E34, 0x65F6, 0x79BB, 0x5F00]]"

section \<open>The queries of LibQuery\<close>

text \<open>
  \<open>[f(data) for data in data_list if c(data)]\<close>: the condition and then the element are
  evaluated entry by entry, and the first exception ends the comprehension.
\<close>

fun comprehension ::
  "(json \<Rightarrow> error + bool) \<Rightarrow> (json \<Rightarrow> error + 'a) \<Rightarrow> json list \<Rightarrow> error + 'a list" where
  "comprehension c f [] = Inr []"
| "comprehension c f (data # rest) =
     and_then (c data) (\<lambda>keep.
       if keep
       then and_then (f data) (\<lambda>x. and_then (comprehension c f rest) (\<lambda>xs. Inr (x # xs)))
       else comprehension c f rest)"

text \<open>\<open>response_json["data"]["list"]\<close> and \<open>response_json["data"]["list"]["childArea"]\<close>\<close>

definition data_list_of :: "json \<Rightarrow> error + json" where
  "data_list_of response_json =
     and_then (py_getitem response_json (ustr ''data'')) (\<lambda>d. py_getitem d (ustr ''list''))"

definition child_area_of :: "json \<Rightarrow> error + json" where
  "child_area_of response_json =
     and_then (data_list_of response_json) (\<lambda>l. py_getitem l (ustr ''childArea''))"

text \<open>\<open>data["isValid"] == 1\<close>\<close>

definition is_valid :: "json \<Rightarrow> error + bool" where
  "is_valid data = and_then (py_getitem data (ustr ''isValid'')) (\<lambda>v. Inr (py_eq_int v 1))"

definition library_of :: "json \<Rightarrow> error + Library" where
  "library_of data =
     and_then (get_int data (ustr ''id'')) (\<lambda>i.
     and_then (get_str data (ustr ''name'')) (\<lambda>n.
     and_then (get_str data (ustr ''nameMerge'')) (\<lambda>nm.
     and_then (get_str data (ustr ''enname'')) (\<lambda>en.
     and_then (get_str data (ustr ''ennameMerge'')) (\<lambda>enm.
       Inr \<lparr>lib_id = i, lib_name = n, lib_nameMerge = nm, lib_enname = en,
            lib_ennameMerge = enm\<rparr>)))))"

definition get_library_list :: "LibQuery \<Rightarrow> world \<Rightarrow> (error + Library list) \<times> world" where
  "get_library_list self w =
     (let (r, w') = get_json self w LIBRARY_LIST_URL None in
        (and_then r (\<lambda>response_json.
         and_then (data_list_of response_json) (\<lambda>data_list.
         and_then (py_iter data_list) (comprehension is_valid library_of))),
         w'))"

definition floor_of :: "Library \<Rightarrow> json \<Rightarrow> error + LibraryFloor" where
  "floor_of library data =
     and_then (get_int data (ustr ''id'')) (\<lambda>i.
     and_then (get_str data (ustr ''name'')) (\<lambda>n.
     and_then (get_str data (ustr ''enname'')) (\<lambda>en.
       Inr \<lparr>floor_id = i, floor_name = n, floor_enname = en, floor_parent = lib_id library\<rparr>)))"

definition floors_url :: "Library \<Rightarrow> pystr" where
  "floors_url library = LIBRARY_AREAS_URL @ str_int (lib_id library)"

definition get_library_floors ::
  "LibQuery \<Rightarrow> world \<Rightarrow> Library \<Rightarrow> (error + LibraryFloor list) \<times> world" where
  "get_library_floors self w library =
     (let (r, w') = get_json self w (floors_url library) None in
        (and_then r (\<lambda>response_json.
         and_then (py_getitem response_json (ustr ''status'')) (\<lambda>st.
         if \<not> py_eq_int st 1 then Inl AssertionError
         else
         and_then (child_area_of response_json) (\<lambda>data_list.
         and_then (py_iter data_list) (comprehension is_valid (floor_of library))))),
         w'))"

definition section_of :: "LibraryFloor \<Rightarrow> json \<Rightarrow> error + LibrarySection" where
  "section_of floor data =
     and_then (get_int data (ustr ''id'')) (\<lambda>i.
     and_then (get_str data (ustr ''name'')) (\<lambda>n.
     and_then (get_str data (ustr ''enname'')) (\<lambda>en.
     and_then (get_int data (ustr ''TotalCount'')) (\<lambda>total.
     and_then (get_int data (ustr ''TotalCount'')) (\<lambda>t.
     and_then (get_int data (ustr ''UnavailableSpace'')) (\<lambda>un.
       Inr \<lparr>sec_id = i, sec_name = n, sec_enname = en, sec_total = total,
            sec_available = t - un, sec_parent = floor_id floor\<rparr>))))))"

definition sections_url :: "LibraryFloor \<Rightarrow> pystr \<Rightarrow> pystr" where
  "sections_url floor date = LIBRARY_AREAS_URL @ str_int (floor_id floor) @ ustr ''/date/'' @ date"

text \<open>\<open>sorted(..., key=lambda x: x.id)\<close> is a stable ascending sort, as \<open>sort_key\<close> is.\<close>

definition get_library_sections ::
  "LibQuery \<Rightarrow> world \<Rightarrow> LibraryFloor \<Rightarrow> Day \<Rightarrow> (error + LibrarySection list) \<times> world" where
  "get_library_sections self w floor day =
     (let date = date_of_day w day;
          (r, w') = get_json self w (sections_url floor date) None
      in
        (and_then r (\<lambda>response_json.
         and_then (child_area_of response_json) (\<lambda>data_list.
         and_then (py_iter data_list) (\<lambda>ds.
         and_then (comprehension is_valid (section_of floor) ds) (\<lambda>xs.
           Inr (sort_key sec_id xs))))),
         w'))"






definition seat_of :: "LibrarySection \<Rightarrow> json \<Rightarrow> error + LibrarySeat" where
  "seat_of section data =
     and_then (get_int data (ustr ''id'')) (\<lambda>i.
     and_then (get_str data (ustr ''name'')) (\<lambda>n.
     and_then (get_int data (ustr ''area_type'')) (\<lambda>ty.
     and_then (get_int data (ustr ''status'')) (\<lambda>st.
       Inr \<lparr>seat_id = i, seat_name = n, seat_type = ty, seat_status = st,
            seat_parent = sec_id section\<rparr>))))"

definition seats_params :: "pystr \<Rightarrow> LibrarySection \<Rightarrow> LibraryDay \<Rightarrow> (pystr \<times> json) list" where
  "seats_params now section day =
     [(ustr ''area'', JInt (sec_id section)),
      (ustr ''segment'', JInt (day_id day)),
      (ustr ''day'', JStr (day_date day)),
      (ustr ''startTime'', JStr (if day_day day = Today then now else day_startTime day)),
      (ustr ''endTime'', JStr (day_endTime day))]"

definition get_library_seats ::
  "LibQuery \<Rightarrow> world \<Rightarrow> LibrarySection \<Rightarrow> LibraryDay \<Rightarrow> (error + LibrarySeat list) \<times> world" where
  "get_library_seats self w section day =
     (let now = strftime_HM (localtime (utc_offset w) (clock w));
          (r, w') = get_json self w LIBRARY_SEATS_URL (Some (seats_params now section day))
      in
        (and_then r (\<lambda>response_json.
         and_then (data_list_of response_json) (\<lambda>data_list.
         and_then (py_iter data_list) (comprehension (\<lambda>data. Inr True) (seat_of section)))),
         w'))"

section \<open>The browser login\<close>

text \<open>
  What the browser does during one login is fixed by a \<open>driver\<close>: for every call of the
  Selenium driver, the exception it raises or the value it returns. \<open>current_url\<close> gives the
  address read at the n-th poll. \<open>confirmed\<close> is the answer to \<open>input(...)\<close> of the manual
  variant: \<open>None\<close> when Enter is never pressed.
\<close>

record driver =
  start_error :: "error option"
  get_error :: "error option"
  send_user :: "pystr \<Rightarrow> error option"
  send_pass :: "pystr \<Rightarrow> error option"
  do_login :: "error option"
  current_url :: "nat \<Rightarrow> error + pystr"
  get_cookies :: "error + json list"
  user_agent :: "error + pystr"
  confirmed :: "error option option"

text \<open>The machine the script runs on: is the browser process alive, and what was printed.\<close>

record machine =
  browser_running :: bool
  printed :: "string list"

text \<open>
  A statement runs on the machine and ends in an exception or a value, or never ends
  (\<open>None\<close>).
\<close>

type_synonym 'a action = "machine \<Rightarrow> ((error + 'a) \<times> machine) option"

definition ret :: "'a \<Rightarrow> 'a action" where
  "ret x m = Some (Inr x, m)"

definition throw :: "error \<Rightarrow> 'a action" where
  "throw e m = Some (Inl e, m)"

definition seq :: "'a action \<Rightarrow> ('a \<Rightarrow> 'b action) \<Rightarrow> 'b action" where
  "seq a f m =
     (case a m of
        None \<Rightarrow> None
      | Some (Inl e, m') \<Rightarrow> Some (Inl e, m')
      | Some (Inr x, m') \<Rightarrow> f x m')"

definition py_print :: "string \<Rightarrow> unit action" where
  "py_print msg m = Some (Inr (), m\<lparr>printed := printed m @ [msg]\<rparr>)"

definition driver_call :: "error option \<Rightarrow> unit action" where
  "driver_call outcome m = (case outcome of Some e \<Rightarrow> Some (Inl e, m) | None \<Rightarrow> Some (Inr (), m))"

definition result_of :: "error + 'a \<Rightarrow> 'a action" where
  "result_of r m = Some (r, m)"

text \<open>
  \<open>webdriver.Chrome(...)\<close> starts the browser process unless it raises; \<open>driver.quit()\<close>
  ends the process and does not raise.
\<close>

definition chrome :: "driver \<Rightarrow> unit action" where
  "chrome drv m =
     (case start_error drv of
        Some e \<Rightarrow> Some (Inl e, m)
      | None \<Rightarrow> Some (Inr (), m\<lparr>browser_running := True\<rparr>))"

definition driver_quit :: "unit action" where
  "driver_quit m = Some (Inr (), m\<lparr>browser_running := False\<rparr>)"

text \<open>
  \<open>try: body except Exception as e: handler(e)\<close> and \<open>try: body finally: fin\<close>. The
  \<open>finally\<close> block runs however the body ends, and an exception of its own replaces the
  outcome of the body.
\<close>

definition try_except :: "'a action \<Rightarrow> (error \<Rightarrow> 'a action) \<Rightarrow> 'a action" where
  "try_except body handler m =
     (case body m of
        None \<Rightarrow> None
      | Some (Inl e, m') \<Rightarrow> if is_Exception e then handler e m' else Some (Inl e, m')
      | Some (Inr x, m') \<Rightarrow> Some (Inr x, m'))"

definition try_finally :: "'a action \<Rightarrow> unit action \<Rightarrow> 'a action" where
  "try_finally body fin m =
     (case body m of
        None \<Rightarrow> None
      | Some (r, m') \<Rightarrow>
          (case fin m' of
             None \<Rightarrow> None
           | Some (Inl e, m'') \<Rightarrow> Some (Inl e, m'')
           | Some (Inr u, m'') \<Rightarrow> Some (r, m'')))"

text \<open>\<open>sub in s\<close> for two strs.\<close>

fun py_in :: "pystr \<Rightarrow> pystr \<Rightarrow> bool" where
  "py_in sub [] = (sub = [])"
| "py_in sub (c # s) = (take (length sub) (c # s) = sub \<or> py_in sub s)"

text \<open>
  \<open>while "webvpn.tsinghua.edu.cn" not in driver.current_url: time.sleep(1)\<close>: the loop has
  no bound.
\<close>

partial_function (option) wait_for_redirect ::
  "driver \<Rightarrow> nat \<Rightarrow> machine \<Rightarrow> ((error + unit) \<times> machine) option" where
  "wait_for_redirect drv n m =
     (case current_url drv n of
        Inl e \<Rightarrow> Some (Inl e, m)
      | Inr u \<Rightarrow>
          if py_in (ustr ''webvpn.tsinghua.edu.cn'') u then Some (Inr (), m)
          else wait_for_redirect drv (Suc n) m)"

text \<open>
  \<open>session.cookies.set(cookie["name"], cookie["value"], domain=cookie["domain"],
  path=cookie["path"])\<close>: a cookie of the same name, domain and path is replaced.
\<close>

definition cookie_of :: "json \<Rightarrow> error + cookie" where
  "cookie_of c =
     and_then (get_str c (ustr ''name'')) (\<lambda>n.
     and_then (get_str c (ustr ''value'')) (\<lambda>v.
     and_then (get_str c (ustr ''domain'')) (\<lambda>d.
     and_then (get_str c (ustr ''path'')) (\<lambda>p.
       Inr \<lparr>ck_name = n, ck_value = v, ck_domain = d, ck_path = p\<rparr>))))"

definition jar_set :: "cookie list \<Rightarrow> cookie \<Rightarrow> cookie list" where
  "jar_set jar c =
     filter (\<lambda>c'. \<not> (ck_name c' = ck_name c \<and> ck_domain c' = ck_domain c \<and> ck_path c' = ck_path c)) jar
     @ [c]"

fun set_cookies :: "cookie list \<Rightarrow> json list \<Rightarrow> error + cookie list" where
  "set_cookies jar [] = Inr jar"
| "set_cookies jar (c # cs) = and_then (cookie_of c) (\<lambda>ck. set_cookies (jar_set jar ck) cs)"

text \<open>Lines 215 to 226 and 250 to 261: the cookies and the user agent become the session.\<close>

definition extract_session :: "driver \<Rightarrow> (cookie list \<times> (pystr \<times> pystr) list) action" where
  "extract_session drv =
     seq (result_of (get_cookies drv)) (\<lambda>cookies.
     seq (result_of (user_agent drv)) (\<lambda>ua.
     seq (result_of (set_cookies [] cookies)) (\<lambda>session.
     ret (session, [(ustr ''User-Agent'', ua)]))))"

definition close_browser :: "unit action" where
  "close_browser = seq driver_quit (\<lambda>_. py_print (CHR 0x0A # ''Browser closed.''))"

definition webvpn_login :: "driver \<Rightarrow> pystr \<Rightarrow> pystr \<Rightarrow> LibQuery action" where
  "webvpn_login drv username password =
     seq (chrome drv) (\<lambda>_.
     seq (try_finally
            (try_except
               (seq (driver_call (get_error drv)) (\<lambda>_.
                seq (py_print ''Browser opened. Logging in automatically...'') (\<lambda>_.
                seq (driver_call (send_user drv username)) (\<lambda>_.
                seq (driver_call (send_pass drv password)) (\<lambda>_.
                seq (driver_call (do_login drv)) (\<lambda>_.
                seq (wait_for_redirect drv 0) (\<lambda>_.
                seq (py_print ''Login successful.'') (\<lambda>_.
                extract_session drv))))))))
               (\<lambda>e. seq (py_print ''An error occurred during login. Try logging in manually.'')
                        (\<lambda>_. throw e)))
            close_browser)
         (\<lambda>(session, headers). ret \<lparr>lq_session = session, lq_headers = headers\<rparr>))"

text \<open>\<open>input(prompt)\<close> prints the prompt and waits for Enter.\<close>

definition py_input :: "driver \<Rightarrow> string \<Rightarrow> unit action" where
  "py_input drv prompt m =
     (case confirmed drv of
        None \<Rightarrow> None
      | Some outcome \<Rightarrow> driver_call outcome (m\<lparr>printed := printed m @ [prompt]\<rparr>))"

definition webvpn_login_manual :: "driver \<Rightarrow> LibQuery action" where
  "webvpn_login_manual drv =
     seq (chrome drv) (\<lambda>_.
     seq (try_finally
            (seq (driver_call (get_error drv)) (\<lambda>_.
             seq (py_print ''Browser opened. Please log in through the browser interface.'') (\<lambda>_.
             seq (py_input drv ''Press Enter after you have successfully logged in...'') (\<lambda>_.
             extract_session drv))))
            close_browser)
         (\<lambda>(session, headers). ret \<lparr>lq_session = session, lq_headers = headers\<rparr>))"

section \<open>The calendar, in the words of the specification\<close>

text \<open>
  "Plus exactly one calendar day", across month and year boundaries: the day after a date
  of the Gregorian calendar, and the \<open>YYYY-MM-DD\<close> rendering of a date. \<open>year_step\<close> and
  \<open>month_step\<close> are the same step on the intermediate results of \<open>year_of\<close> and
  \<open>month_day\<close>.
\<close>

definition month_length :: "int \<Rightarrow> int \<Rightarrow> int" where
  "month_length y m = month_lengths y ! nat (m - 1)"

definition next_day :: "int \<times> int \<times> int \<Rightarrow> int \<times> int \<times> int" where
  "next_day date =
     (case date of (y, m, d) \<Rightarrow>
        if d < month_length y m then (y, m, d + 1)
        else if m < 12 then (y, m + 1, 1)
        else (y + 1, 1, 1))"

definition date_string :: "int \<times> int \<times> int \<Rightarrow> pystr" where
  "date_string date =
     (case date of (y, m, d) \<Rightarrow> str_int y @ ustr ''-'' @ pad2 m @ ustr ''-'' @ pad2 d)"

definition year_step :: "int \<times> int \<Rightarrow> int \<times> int" where
  "year_step p = (case p of (y, r) \<Rightarrow> if r + 1 < days_in_year y then (y, r + 1) else (y + 1, 0))"

definition month_step :: "int list \<Rightarrow> int \<Rightarrow> int \<times> int \<Rightarrow> int \<times> int" where
  "month_step ls m p = (case p of (m', d') \<Rightarrow> if d' < ls ! nat (m' - m) then (m', d' + 1) else (m' + 1, 1))"

section \<open>Concrete inputs\<close>

text \<open>
  Sessions, zones, payloads and entities on which the theorems below are run: a server
  that answers every request with one fixed response, the zone UTC, and the zone of New
  York around the end of daylight saving time on 2024-11-03 (06:00 UTC).
\<close>

definition q0 :: LibQuery where
  "q0 = \<lparr>lq_session = [], lq_headers = []\<rparr>"

definition ok_response :: "json \<Rightarrow> response" where
  "ok_response body = \<lparr>status_code = 200, json_body = Some body\<rparr>"

definition utc :: "int \<Rightarrow> int" where
  "utc t = 0"

definition new_york_2024 :: "int \<Rightarrow> int" where
  "new_york_2024 t = (if t < 1730613600 then - 14400 else - 18000)"

definition fixed_server :: "response \<Rightarrow> request \<Rightarrow> error + response" where
  "fixed_server resp req = Inr resp"

definition world_of :: "int \<Rightarrow> (int \<Rightarrow> int) \<Rightarrow> response \<Rightarrow> world" where
  "world_of t tz resp = \<lparr>clock = t, utc_offset = tz, server = fixed_server resp, sent = []\<rparr>"

definition envelope :: "int \<Rightarrow> json \<Rightarrow> json" where
  "envelope st d = JDict [(ustr ''status'', JInt st), (ustr ''data'', d)]"

definition list_payload :: "json list \<Rightarrow> json" where
  "list_payload ds = envelope 1 (JDict [(ustr ''list'', JList ds)])"

definition child_areas :: "json list \<Rightarrow> json" where
  "child_areas ds = envelope 1 (JDict [(ustr ''list'', JDict [(ustr ''childArea'', JList ds)])])"

definition library_entry :: "int \<Rightarrow> int \<Rightarrow> json" where
  "library_entry i valid =
     JDict [(ustr ''id'', JInt i), (ustr ''name'', JStr (ustr ''L'')),
            (ustr ''nameMerge'', JStr (ustr ''L'')), (ustr ''enname'', JStr (ustr ''L'')),
            (ustr ''ennameMerge'', JStr (ustr ''L'')), (ustr ''isValid'', JInt valid)]"

definition area_entry :: "int \<Rightarrow> int \<Rightarrow> int \<Rightarrow> int \<Rightarrow> json" where
  "area_entry i valid tot un =
     JDict [(ustr ''id'', JInt i), (ustr ''name'', JStr (ustr ''A'')),
            (ustr ''enname'', JStr (ustr ''A'')), (ustr ''isValid'', JInt valid),
            (ustr ''TotalCount'', JInt tot), (ustr ''UnavailableSpace'', JInt un)]"


definition seat_entry :: "int \<Rightarrow> int \<Rightarrow> json" where
  "seat_entry i st =
     JDict [(ustr ''id'', JInt i), (ustr ''name'', JStr (ustr ''S'')),
            (ustr ''area_type'', JInt 1), (ustr ''status'', JInt st)]"

definition library1 :: Library where
  "library1 = \<lparr>lib_id = 1, lib_name = ustr ''L'', lib_nameMerge = ustr ''L'',
                lib_enname = ustr ''L'', lib_ennameMerge = ustr ''L''\<rparr>"

definition floor7 :: LibraryFloor where
  "floor7 = \<lparr>floor_id = 7, floor_name = ustr ''A'', floor_enname = ustr ''A'', floor_parent = 1\<rparr>"

definition section_of_counts :: "int \<Rightarrow> int \<Rightarrow> int \<Rightarrow> LibrarySection" where
  "section_of_counts i tot avail =
     \<lparr>sec_id = i, sec_name = ustr ''A'', sec_enname = ustr ''A'', sec_total = tot,
      sec_available = avail, sec_parent = 7\<rparr>"

definition segment :: "Day \<Rightarrow> LibraryDay" where
  "segment day = \<lparr>day_id = 11, day_date = ustr ''1970-01-01'', day_startTime = ustr ''08:00'',
                   day_endTime = ustr ''22:00'', day_day = day\<rparr>"

definition seat_of_status :: "int \<Rightarrow> int \<Rightarrow> LibrarySeat" where
  "seat_of_status i st =
     \<lparr>seat_id = i, seat_name = ustr ''S'', seat_type = 1, seat_status = st, seat_parent = 5\<rparr>"

text \<open>
  The floor of the end-to-end scenario of the specification (sections 5 and 2) with one
  more entry whose validity flag is 0, and a floor whose only section reports more
  unavailable seats than seats.
\<close>

definition sections_world :: world where
  "sections_world =
     world_of 0 utc (ok_response (child_areas
       [area_entry 5 1 10 3, area_entry 2 1 4 4, area_entry 9 0 6 1]))"

definition overbooked_world :: world where
  "overbooked_world = world_of 0 utc (ok_response (child_areas [area_entry 3 1 4 5]))"


definition not_found_world :: world where
  "not_found_world = world_of 0 utc \<lparr>status_code = 404, json_body = None\<rparr>"

definition refused_world :: world where
  "refused_world = world_of 0 utc (ok_response (envelope 0 JNull))"

definition empty_list_world :: world where
  "empty_list_world = world_of 0 utc (ok_response (list_payload []))"

definition libraries_world :: world where
  "libraries_world = world_of 0 utc (ok_response (list_payload [library_entry 1 1, library_entry 2 0]))"






definition seats_world :: "int \<Rightarrow> world" where
  "seats_world t = world_of t utc (ok_response (list_payload [seat_entry 1 1, seat_entry 2 9]))"

definition new_year_world :: world where
  "new_year_world = world_of 1735689599 utc (ok_response JNull)"

definition dst_world :: world where
  "dst_world = world_of 1730608200 new_york_2024 (ok_response JNull)"

text \<open>
  A browser whose second poll of the address shows the tunnel domain, the same browser
  with a failing login script, and a machine on which no browser runs.
\<close>

definition polled_url :: "nat \<Rightarrow> error + pystr" where
  "polled_url n =
     Inr (if n = 0 then ustr ''https://id.tsinghua.edu.cn/do/off/ui/auth/login''
          else ustr ''https://webvpn.tsinghua.edu.cn/'')"

definition good_driver :: driver where
  "good_driver =
     \<lparr>start_error = None, get_error = None, send_user = (\<lambda>username. None),
      send_pass = (\<lambda>password. None), do_login = None, current_url = polled_url,
      get_cookies = Inr [JDict [(ustr ''name'', JStr (ustr ''sid'')), (ustr ''value'', JStr (ustr ''42'')),
                                (ustr ''domain'', JStr (ustr ''.tsinghua.edu.cn'')),
                                (ustr ''path'', JStr (ustr ''/''))]],
      user_agent = Inr (ustr ''Chrome''), confirmed = Some None\<rparr>"

definition broken_driver :: driver where
  "broken_driver = good_driver\<lparr>do_login := Some WebDriverException\<rparr>"

definition idle_machine :: machine where
  "idle_machine = \<lparr>browser_running = False, printed = []\<rparr>"

definition good_query :: LibQuery where
  "good_query =
     \<lparr>lq_session = [\<lparr>ck_name = ustr ''sid'', ck_value = ustr ''42'',
                      ck_domain = ustr ''.tsinghua.edu.cn'', ck_path = ustr ''/''\<rparr>],
      lq_headers = [(ustr ''User-Agent'', ustr ''Chrome'')]\<rparr>"

section \<open>Lemmas about the model\<close>

lemma and_then_Inl [simp]: "and_then (Inl e) f = Inl e"
  by (simp add: and_then_def)

lemma and_then_Inr [simp]: "and_then (Inr x) f = f x"
  by (simp add: and_then_def)

lemma and_then_eq_Inr: "and_then m f = Inr y \<longleftrightarrow> (\<exists>x. m = Inr x \<and> f x = Inr y)"
  by (cases m) simp_all

lemma comprehension_Inr:
  "comprehension c f ds = Inr xs \<Longrightarrow>
   list_all2 (\<lambda>data x. f data = Inr x) (filter (\<lambda>data. c data = Inr True) ds) xs"
proof (induction ds arbitrary: xs)
  case Nil
  then show ?case by simp
next
  case (Cons data rest)
  from Cons.prems obtain keep where k: "c data = Inr keep"
    by (auto simp: and_then_eq_Inr)
  show ?case
  proof (cases keep)
    case True
    with Cons.prems k obtain x ys where "f data = Inr x" "comprehension c f rest = Inr ys" "xs = x # ys"
      by (auto simp: and_then_eq_Inr)
    with Cons.IH [of ys] k True show ?thesis by simp
  next
    case False
    with Cons.prems k have "comprehension c f rest = Inr xs" by simp
    with Cons.IH [of xs] k False show ?thesis by simp
  qed
qed

lemma comprehension_succeeds:
  "\<forall>data\<in>set ds. \<exists>keep. c data = Inr keep \<Longrightarrow>
   \<forall>data\<in>set ds. c data = Inr True \<longrightarrow> (\<exists>x. f data = Inr x) \<Longrightarrow>
   \<exists>xs. comprehension c f ds = Inr xs"
proof (induction ds)
  case Nil
  then show ?case by simp
next
  case (Cons d rest)
  then obtain ys where ys: "comprehension c f rest = Inr ys" by auto
  from Cons.prems(1) obtain keep where k: "c d = Inr keep" by auto
  show ?case
  proof (cases keep)
    case True
    with Cons.prems(2) k obtain x where "f d = Inr x" by auto
    with k True ys show ?thesis by simp
  next
    case False
    with k ys show ?thesis by simp
  qed
qed

lemma get_json_fst:
  "fst (get_json self w u ps) =
     and_then (server w (get_request self u ps)) (\<lambda>resp.
       if status_code resp \<noteq> 200 then Inl AssertionError
       else case json_body resp of
              None \<Rightarrow> Inl JSONDecodeError
            | Some response_json \<Rightarrow>
                and_then (py_getitem response_json (ustr ''status''))
                  (\<lambda>st. if py_eq_int st 1 then Inr response_json else Inl AssertionError))"
  by (simp add: get_json_def session_get_def Let_def)

lemma get_json_snd:
  "snd (get_json self w u ps) = w\<lparr>sent := sent w @ [get_request self u ps]\<rparr>"
  by (simp add: get_json_def session_get_def Let_def)

lemma get_library_list_fst:
  "fst (get_library_list self w) =
     and_then (fst (get_json self w LIBRARY_LIST_URL None)) (\<lambda>response_json.
     and_then (data_list_of response_json) (\<lambda>data_list.
     and_then (py_iter data_list) (comprehension is_valid library_of)))"
  by (simp add: get_library_list_def split: prod.splits)

lemma get_library_floors_fst:
  "fst (get_library_floors self w library) =
     and_then (fst (get_json self w (floors_url library) None)) (\<lambda>response_json.
     and_then (py_getitem response_json (ustr ''status'')) (\<lambda>st.
     if \<not> py_eq_int st 1 then Inl AssertionError
     else
     and_then (child_area_of response_json) (\<lambda>data_list.
     and_then (py_iter data_list) (comprehension is_valid (floor_of library)))))"
  by (simp add: get_library_floors_def split: prod.splits)

lemma get_library_sections_fst:
  "fst (get_library_sections self w floor day) =
     and_then (fst (get_json self w (sections_url floor (date_of_day w day)) None)) (\<lambda>response_json.
     and_then (child_area_of response_json) (\<lambda>data_list.
     and_then (py_iter data_list) (\<lambda>ds.
     and_then (comprehension is_valid (section_of floor) ds) (\<lambda>xs.
       Inr (sort_key sec_id xs)))))"
  by (simp add: get_library_sections_def Let_def split: prod.splits)


lemma get_library_seats_fst:
  "fst (get_library_seats self w section day) =
     and_then (fst (get_json self w LIBRARY_SEATS_URL
         (Some (seats_params (strftime_HM (localtime (utc_offset w) (clock w))) section day))))
       (\<lambda>response_json.
     and_then (data_list_of response_json) (\<lambda>data_list.
     and_then (py_iter data_list) (comprehension (\<lambda>data. Inr True) (seat_of section))))"
  by (simp add: get_library_seats_def Let_def split: prod.splits)

lemma section_of_Inr:
  "section_of floor data = Inr s \<Longrightarrow>
   get_int data (ustr ''id'') = Inr (sec_id s) \<and>
   get_int data (ustr ''TotalCount'') = Inr (sec_total s) \<and>
   (\<exists>un. get_int data (ustr ''UnavailableSpace'') = Inr un \<and> sec_available s = sec_total s - un) \<and>
   sec_parent s = floor_id floor"
  by (auto simp: section_of_def and_then_eq_Inr)

lemma sections_from_entries:
  assumes "fst (get_library_sections self w floor day) = Inr secs"
  shows "\<exists>response_json data_list ds xs.
           fst (get_json self w (sections_url floor (date_of_day w day)) None) = Inr response_json \<and>
           child_area_of response_json = Inr data_list \<and> py_iter data_list = Inr ds \<and>
           list_all2 (\<lambda>data x. section_of floor data = Inr x) (filter (\<lambda>data. is_valid data = Inr True) ds) xs \<and>
           secs = sort_key sec_id xs"
  using assms by (auto simp: get_library_sections_fst and_then_eq_Inr dest!: comprehension_Inr)

lemma list_all2_pick:
  "list_all2 P xs ys \<Longrightarrow> y \<in> set ys \<Longrightarrow> \<exists>x\<in>set xs. P x y"
  by (induction rule: list_all2_induct) auto

lemma is_valid_True_iff:
  "is_valid data = Inr True \<longleftrightarrow> (\<exists>v. py_getitem data (ustr ''isValid'') = Inr v \<and> py_eq_int v 1)"
  by (auto simp: is_valid_def and_then_eq_Inr)




lemma strftime_HM_minutes:
  "strftime_HM (localtime tz t) =
     (let m = (t + tz t) mod 86400 div 60 in pad2 (m div 60) @ ustr '':'' @ pad2 (m mod 60))"
proof -
  define s where "s = (t + tz t) mod 86400"
  have hm: "strftime_HM (localtime tz t) = pad2 (s div 3600) @ ustr '':'' @ pad2 (s mod 3600 div 60)"
    by (simp add: strftime_HM_def localtime_def Let_def s_def split: prod.splits)
  have h: "s div 3600 = s div 60 div 60"
    using zdiv_zmult2_eq [of 60 s 60] by simp
  have m: "s mod 3600 div 60 = s div 60 mod 60"
  proof -
    have "s mod (60 * 60) = 60 * (s div 60 mod 60) + s mod 60"
      by (rule zmod_zmult2_eq) simp
    then have "s mod 3600 div 60 = (60 * (s div 60 mod 60) + s mod 60) div 60" by simp
    also have "\<dots> = s div 60 mod 60" by simp
    finally show ?thesis .
  qed
  have "strftime_HM (localtime tz t) = pad2 (s div 60 div 60) @ ustr '':'' @ pad2 (s div 60 mod 60)"
    by (simp only: hm h m)
  then show ?thesis
    unfolding Let_def s_def .
qed

lemma get_library_seats_snd:
  "snd (get_library_seats self w section dseg) =
     snd (get_json self w LIBRARY_SEATS_URL
       (Some (seats_params (strftime_HM (localtime (utc_offset w) (clock w))) section dseg)))"
  by (simp add: get_library_seats_def Let_def split: prod.splits)

lemma seat_of_keeps_status:
  "seat_of section data = Inr s \<Longrightarrow> get_int data (ustr ''status'') = Inr (seat_status s)"
  by (auto simp: seat_of_def and_then_eq_Inr)

lemma seat_of_defined:
  "get_int data (ustr ''id'') = Inr i \<Longrightarrow> get_str data (ustr ''name'') = Inr n \<Longrightarrow>
   get_int data (ustr ''area_type'') = Inr ty \<Longrightarrow> get_int data (ustr ''status'') = Inr code \<Longrightarrow>
   \<exists>s. seat_of section data = Inr s"
  by (simp add: seat_of_def)

lemma seats_keep_codes:
  assumes "fst (get_library_seats self w section dseg) = Inr seats"
  shows "\<exists>response_json data_list ds.
           fst (get_json self w LIBRARY_SEATS_URL
             (Some (seats_params (strftime_HM (localtime (utc_offset w) (clock w))) section dseg)))
             = Inr response_json \<and>
           data_list_of response_json = Inr data_list \<and> py_iter data_list = Inr ds \<and>
           list_all2 (\<lambda>data s. get_int data (ustr ''status'') = Inr (seat_status s)) ds seats"
proof -
  from assms obtain response_json data_list ds where
    p: "fst (get_json self w LIBRARY_SEATS_URL
          (Some (seats_params (strftime_HM (localtime (utc_offset w) (clock w))) section dseg)))
          = Inr response_json"
       "data_list_of response_json = Inr data_list" "py_iter data_list = Inr ds"
    and c: "comprehension (\<lambda>data. Inr True) (seat_of section) ds = Inr seats"
    by (auto simp: get_library_seats_fst and_then_eq_Inr)
  from comprehension_Inr [OF c] have "list_all2 (\<lambda>data s. seat_of section data = Inr s) ds seats"
    by simp
  then have "list_all2 (\<lambda>data s. get_int data (ustr ''status'') = Inr (seat_status s)) ds seats"
    by (rule list_all2_mono) (rule seat_of_keeps_status)
  with p show ?thesis by blast
qed

lemma seats_never_raise_on_code:
  assumes "fst (get_json self w LIBRARY_SEATS_URL
             (Some (seats_params (strftime_HM (localtime (utc_offset w) (clock w))) section dseg)))
             = Inr response_json"
    and "data_list_of response_json = Inr data_list" and "py_iter data_list = Inr ds"
    and "\<forall>data\<in>set ds. \<exists>i n ty code.
           get_int data (ustr ''id'') = Inr i \<and> get_str data (ustr ''name'') = Inr n \<and>
           get_int data (ustr ''area_type'') = Inr ty \<and> get_int data (ustr ''status'') = Inr code"
  shows "\<exists>seats. fst (get_library_seats self w section dseg) = Inr seats \<and>
           list_all2 (\<lambda>data s. get_int data (ustr ''status'') = Inr (seat_status s)) ds seats"
proof -
  have "\<exists>xs. comprehension (\<lambda>data. Inr True) (seat_of section) ds = Inr xs"
  proof (rule comprehension_succeeds)
    show "\<forall>data\<in>set ds. \<exists>keep. (Inr True :: error + bool) = Inr keep" by blast
    show "\<forall>data\<in>set ds. (Inr True :: error + bool) = Inr True \<longrightarrow> (\<exists>x. seat_of section data = Inr x)"
      using assms(4) by (blast dest: seat_of_defined)
  qed
  then obtain seats where c: "comprehension (\<lambda>data. Inr True) (seat_of section) ds = Inr seats" ..
  with assms(1,2,3) have r: "fst (get_library_seats self w section dseg) = Inr seats"
    by (simp add: get_library_seats_fst)
  from comprehension_Inr [OF c] have "list_all2 (\<lambda>data s. seat_of section data = Inr s) ds seats"
    by simp
  then have "list_all2 (\<lambda>data s. get_int data (ustr ''status'') = Inr (seat_status s)) ds seats"
    by (rule list_all2_mono) (rule seat_of_keeps_status)
  with r show ?thesis by blast
qed

lemmas run_defs =
  get_json_fst Let_def fixed_server_def world_of_def ok_response_def envelope_def
  child_areas_def list_payload_def child_area_of_def data_list_of_def ustr_def
  is_valid_def get_int_def get_str_def

lemma sections_world_run:
  "fst (get_library_sections q0 sections_world floor7 Today) =
     Inr [section_of_counts 2 4 0, section_of_counts 5 10 7]"
  by (simp add: get_library_sections_fst sections_world_def run_defs area_entry_def
      section_of_def floor7_def section_of_counts_def)

subsection \<open>The calendar\<close>

lemma days_in_year_pos: "365 \<le> days_in_year y" "days_in_year y \<le> 366"
  by (simp_all add: days_in_year_def)

lemma year_of_range:
  "year_of y d = (y', r) \<Longrightarrow> 0 \<le> r \<and> r < days_in_year y'"
proof (induction y d rule: year_of.induct)
  case (1 y d)
  show ?case
  proof (cases "d < 0")
    case True
    with "1.prems" have "year_of (y - 1) (d + days_in_year (y - 1)) = (y', r)"
      by (simp add: year_of.simps [of y d])
    with "1.IH"(1) True show ?thesis by simp
  next
    case False
    show ?thesis
    proof (cases "days_in_year y \<le> d")
      case True
      with False "1.prems" have "year_of (y + 1) (d - days_in_year y) = (y', r)"
        by (simp add: year_of.simps [of y d])
      with "1.IH"(2) False True show ?thesis by simp
    next
      case nd: False
      with False "1.prems" show ?thesis
        by (simp add: year_of.simps [of y d])
    qed
  qed
qed

lemma year_of_in_range: "0 \<le> d \<Longrightarrow> d < days_in_year y \<Longrightarrow> year_of y d = (y, d)"
  by (simp add: year_of.simps [of y d])

lemma year_of_succ: "year_of y (d + 1) = year_step (year_of y d)"
proof (induction y d rule: year_of.induct)
  case (1 y d)
  show ?case
  proof (cases "d < 0")
    case neg: True
    show ?thesis
    proof (cases "d + 1 < 0")
      case True
      then have a: "year_of y (d + 1) = year_of (y - 1) (d + 1 + days_in_year (y - 1))"
        by (subst year_of.simps) simp
      have b: "year_of y d = year_of (y - 1) (d + days_in_year (y - 1))"
        using neg by (subst year_of.simps) simp
      have c: "d + 1 + days_in_year (y - 1) = d + days_in_year (y - 1) + 1"
        by simp
      from "1.IH"(1) [OF neg] show ?thesis
        by (simp only: a b c)
    next
      case False
      with neg have d: "d = - 1" by simp
      have a: "year_of y (d + 1) = (y, 0)"
        using d days_in_year_pos [of y] by (simp add: year_of.simps [of y 0])
      have "year_of y d = year_of (y - 1) (days_in_year (y - 1) - 1)"
        using d by (simp add: year_of.simps [of y "- 1"])
      also have "\<dots> = (y - 1, days_in_year (y - 1) - 1)"
        using days_in_year_pos [of "y - 1"] by (intro year_of_in_range) simp_all
      finally show ?thesis using a by (simp add: year_step_def)
    qed
  next
    case nonneg: False
    show ?thesis
    proof (cases "days_in_year y \<le> d")
      case True
      then have a: "year_of y (d + 1) = year_of (y + 1) (d + 1 - days_in_year y)"
        using nonneg by (subst year_of.simps) simp
      have b: "year_of y d = year_of (y + 1) (d - days_in_year y)"
        using nonneg True by (subst year_of.simps) simp
      have c: "d + 1 - days_in_year y = d - days_in_year y + 1"
        by simp
      from "1.IH"(2) [OF nonneg True] show ?thesis
        by (simp only: a b c)
    next
      case False
      with nonneg have yd: "year_of y d = (y, d)" by (simp add: year_of_in_range)
      show ?thesis
      proof (cases "d + 1 < days_in_year y")
        case True
        with nonneg yd show ?thesis by (simp add: year_of_in_range year_step_def)
      next
        case eq: False
        with False have e: "d + 1 = days_in_year y" by simp
        have "year_of y (days_in_year y) = year_of (y + 1) 0"
          using days_in_year_pos [of y] by (subst year_of.simps) simp
        with e have "year_of y (d + 1) = year_of (y + 1) 0"
          by simp
        also have "\<dots> = (y + 1, 0)"
          using days_in_year_pos [of "y + 1"] by (intro year_of_in_range) simp_all
        finally show ?thesis using yd eq by (simp add: year_step_def)
      qed
    qed
  qed
qed

lemma month_day_first: "0 < l \<Longrightarrow> month_day (l # ls) m 0 = (m, 1)"
  by simp

lemma month_day_mono: "month_day ls m r = (m', d') \<Longrightarrow> m \<le> m'"
proof (induction ls arbitrary: m r)
  case Nil
  then show ?case by simp
next
  case (Cons l ls)
  show ?case
  proof (cases "r < l")
    case True
    with Cons.prems show ?thesis by simp
  next
    case False
    with Cons.prems have "month_day ls (m + 1) (r - l) = (m', d')" by simp
    from Cons.IH [OF this] show ?thesis by simp
  qed
qed

lemma month_day_range:
  "\<forall>l\<in>set ls. 0 < l \<Longrightarrow> 0 \<le> r \<Longrightarrow> r < sum_list ls \<Longrightarrow> month_day ls m r = (m', d') \<Longrightarrow>
   m' < m + int (length ls) \<and> 1 \<le> d' \<and> d' \<le> ls ! nat (m' - m)"
proof (induction ls arbitrary: m r)
  case Nil
  then show ?case by simp
next
  case (Cons l ls)
  show ?case
  proof (cases "r < l")
    case True
    with Cons.prems show ?thesis by auto
  next
    case False
    with Cons.prems have md: "month_day ls (m + 1) (r - l) = (m', d')" by simp
    from Cons.prems False have "\<forall>l\<in>set ls. 0 < l" "0 \<le> r - l" "r - l < sum_list ls"
      by simp_all
    from Cons.IH [OF this md] have ih: "m' < m + 1 + int (length ls)" "1 \<le> d'"
      "d' \<le> ls ! nat (m' - (m + 1))" by simp_all
    from month_day_mono [OF md] have "m + 1 \<le> m'" .
    then have "nat (m' - m) = Suc (nat (m' - (m + 1)))" by simp
    with ih show ?thesis by simp
  qed
qed

lemma sum_list_pos_nonneg: "\<forall>l\<in>set ls. 0 < l \<Longrightarrow> 0 \<le> sum_list (ls :: int list)"
  by (induction ls) auto

lemma month_day_last:
  "\<forall>l\<in>set ls. 0 < l \<Longrightarrow> ls \<noteq> [] \<Longrightarrow>
   month_day ls m (sum_list ls - 1) = (m + int (length ls) - 1, last ls)"
proof (induction ls arbitrary: m)
  case Nil
  then show ?case by simp
next
  case (Cons l ls)
  show ?case
  proof (cases "ls = []")
    case True
    with Cons.prems show ?thesis by simp
  next
    case False
    then obtain l2 ls2 where ls: "ls = l2 # ls2" by (cases ls) auto
    with Cons.prems have "0 < l2" "0 \<le> sum_list ls2"
      by (simp_all add: sum_list_pos_nonneg)
    with ls have pos: "0 < sum_list ls" by simp
    from Cons.prems False have "month_day ls (m + 1) (sum_list ls - 1) = (m + 1 + int (length ls) - 1, last ls)"
      by (intro Cons.IH) simp_all
    moreover have "\<not> l + sum_list ls - 1 < l" using pos by simp
    moreover have "l + sum_list ls - 1 - l = sum_list ls - 1" by simp
    ultimately show ?thesis using False by simp
  qed
qed

lemma month_day_succ:
  "\<forall>l\<in>set ls. 0 < l \<Longrightarrow> 0 \<le> r \<Longrightarrow> r + 1 < sum_list ls \<Longrightarrow>
   month_day ls m (r + 1) = month_step ls m (month_day ls m r)"
proof (induction ls arbitrary: m r)
  case Nil
  then show ?case by simp
next
  case (Cons l ls)
  show ?case
  proof (cases "r < l")
    case in_first: True
    show ?thesis
    proof (cases "r + 1 < l")
      case True
      with in_first show ?thesis by (simp add: month_step_def)
    next
      case False
      with in_first have e: "r + 1 = l" by simp
      with Cons.prems have "0 < sum_list ls" by simp
      then obtain l2 ls2 where ls: "ls = l2 # ls2" by (cases ls) auto
      with Cons.prems have "0 < l2" by simp
      with e ls in_first show ?thesis by (simp add: month_step_def)
    qed
  next
    case False
    from Cons.prems False have p: "\<forall>l\<in>set ls. 0 < l" "0 \<le> r - l" "r - l + 1 < sum_list ls"
      by simp_all
    obtain m' d' where md: "month_day ls (m + 1) (r - l) = (m', d')" by fastforce
    from month_day_mono [OF md] have "nat (m' - m) = Suc (nat (m' - (m + 1)))" by simp
    then have st: "month_step (l # ls) m (m', d') = month_step ls (m + 1) (m', d')"
      by (simp add: month_step_def)
    have "month_day (l # ls) m (r + 1) = month_day ls (m + 1) (r - l + 1)"
      using False by (simp add: algebra_simps)
    also have "\<dots> = month_step ls (m + 1) (month_day ls (m + 1) (r - l))"
      by (rule Cons.IH [OF p])
    also have "\<dots> = month_step (l # ls) m (month_day (l # ls) m r)"
      using False md st by simp
    finally show ?thesis .
  qed
qed

lemma sum_month_lengths: "sum_list (month_lengths y) = days_in_year y"
  by (simp add: month_lengths_def days_in_year_def)

lemma month_lengths_pos: "\<forall>l\<in>set (month_lengths y). 0 < l"
  by (simp add: month_lengths_def)

lemma length_month_lengths: "length (month_lengths y) = 12"
  by (simp add: month_lengths_def)

lemma civil_succ: "civil (n + 1) = next_day (civil n)"
proof -
  obtain y r where yr: "year_of 1970 n = (y, r)" by fastforce
  from year_of_range [OF yr] have r: "0 \<le> r" "r < days_in_year y" by simp_all
  obtain m d where md: "month_day (month_lengths y) 1 r = (m, d)" by fastforce
  from yr md have c: "civil n = (y, m, d)" by (simp add: civil_def)
  from month_day_range [OF month_lengths_pos r(1) _ md] r(2)
  have rng: "m < 13" "1 \<le> d" "d \<le> month_length y m"
    by (simp_all add: sum_month_lengths length_month_lengths month_length_def)
  from month_day_mono [OF md] have m1: "1 \<le> m" .
  show ?thesis
  proof (cases "r + 1 < days_in_year y")
    case True
    then have "year_of 1970 (n + 1) = (y, r + 1)"
      by (simp add: year_of_succ yr year_step_def)
    moreover have "month_day (month_lengths y) 1 (r + 1) = month_step (month_lengths y) 1 (m, d)"
      using month_day_succ [OF month_lengths_pos r(1), of y 1] True md
      by (simp add: sum_month_lengths)
    ultimately have n1: "civil (n + 1) =
      (if d < month_length y m then (y, m, d + 1) else (y, m + 1, 1))"
      by (simp add: civil_def month_step_def month_length_def)
    show ?thesis
    proof (cases "d < month_length y m")
      case True
      with n1 c show ?thesis by (simp add: next_day_def)
    next
      case False
      with n1 have e: "civil (n + 1) = (y, m + 1, 1)" by simp
      obtain y2 r2 where yr2: "year_of 1970 (n + 1) = (y2, r2)" by fastforce
      with \<open>year_of 1970 (n + 1) = (y, r + 1)\<close> have y2: "y2 = y" "r2 = r + 1" by simp_all
      from e yr2 y2 have md2: "month_day (month_lengths y) 1 (r + 1) = (m + 1, 1)"
        by (simp add: civil_def split: prod.splits)
      from month_day_range [OF month_lengths_pos _ _ md2] r True
      have "m + 1 < 13" by (simp add: sum_month_lengths length_month_lengths)
      with False e c show ?thesis by (simp add: next_day_def)
    qed
  next
    case False
    with r have e: "r = days_in_year y - 1" by simp
    have "year_of 1970 (n + 1) = (y + 1, 0)"
      using False by (simp add: year_of_succ yr year_step_def)
    moreover have "month_day (month_lengths (y + 1)) 1 0 = (1, 1)"
      by (simp add: month_lengths_def)
    ultimately have n1: "civil (n + 1) = (y + 1, 1, 1)"
      by (simp add: civil_def)
    have "month_day (month_lengths y) 1 (sum_list (month_lengths y) - 1) =
            (1 + int (length (month_lengths y)) - 1, last (month_lengths y))"
      by (rule month_day_last [OF month_lengths_pos]) (simp add: month_lengths_def)
    with md e have "m = 12" "d = 31"
      by (simp_all add: sum_month_lengths length_month_lengths) (simp_all add: month_lengths_def)
    with c n1 show ?thesis
      by (simp add: next_day_def month_length_def month_lengths_def)
  qed
qed

lemma strftime_Ymd_civil:
  "strftime_Ymd (localtime tz t) = date_string (civil ((t + tz t) div 86400))"
  by (simp add: strftime_Ymd_def localtime_def date_string_def Let_def split: prod.splits)

lemmas date_run_defs =
  date_of_day_def world_of_def utc_def new_york_2024_def localtime_def civil_def
  year_of.simps days_in_year_def is_leap_def month_lengths_def strftime_Ymd_def
  str_int_def str_nat.simps pad2_def ustr_def

subsection \<open>The browser login\<close>

lemma try_finally_close:
  "try_finally body close_browser m = Some (r, m') \<Longrightarrow> \<not> browser_running m'"
  by (auto simp: try_finally_def close_browser_def seq_def driver_quit_def py_print_def
      split: option.splits prod.splits sum.splits)

lemma seq_Some:
  "seq a f m = Some (r, m') \<Longrightarrow>
   (\<exists>e. a m = Some (Inl e, m') \<and> r = Inl e) \<or> (\<exists>x m1. a m = Some (Inr x, m1) \<and> f x m1 = Some (r, m'))"
  by (auto simp: seq_def split: option.splits prod.splits sum.splits)

lemma scoped_browser:
  assumes "\<not> browser_running m"
    and "seq (chrome drv) (\<lambda>_. seq (try_finally body close_browser)
           (\<lambda>(session, headers). ret (g session headers))) m = Some (r, m')"
  shows "\<not> browser_running m'"
proof -
  from seq_Some [OF assms(2)] show ?thesis
  proof (elim disjE exE conjE)
    fix e assume "chrome drv m = Some (Inl e, m')"
    then have "m' = m" by (auto simp: chrome_def split: option.splits)
    with assms(1) show ?thesis by simp
  next
    fix x m1
    assume "seq (try_finally body close_browser)
              (\<lambda>(session, headers). ret (g session headers)) m1 = Some (r, m')"
    from seq_Some [OF this] show ?thesis
      by (auto simp: ret_def dest: try_finally_close)
  qed
qed

lemma good_wait: "wait_for_redirect good_driver 0 m = Some (Inr (), m)"
  by (simp add: wait_for_redirect.simps [of _ 0] wait_for_redirect.simps [of _ "Suc 0"]
      good_driver_def polled_url_def ustr_def)

lemma good_driver_fields:
  "start_error good_driver = None" "get_error good_driver = None"
  "send_user good_driver username = None" "send_pass good_driver password = None"
  "do_login good_driver = None" "confirmed good_driver = Some None"
  "user_agent good_driver = Inr (ustr ''Chrome'')"
  "and_then (get_cookies good_driver) (set_cookies []) = Inr (lq_session good_query)"
  "\<exists>cs. get_cookies good_driver = Inr cs \<and> set_cookies [] cs = Inr (lq_session good_query)"
  by (simp_all add: good_driver_def good_query_def cookie_of_def get_str_def jar_set_def
      and_then_def ustr_def)

lemmas login_run_defs =
  seq_def chrome_def try_finally_def try_except_def driver_call_def py_print_def
  extract_session_def result_of_def ret_def throw_def close_browser_def driver_quit_def
  py_input_def idle_machine_def is_Exception_def

lemma good_login:
  "webvpn_login good_driver (ustr ''u'') (ustr ''p'') idle_machine =
     Some (Inr good_query,
           \<lparr>browser_running = False,
            printed = [''Browser opened. Logging in automatically...'', ''Login successful.'',
                       CHR 0x0A # ''Browser closed.'']\<rparr>)"
proof -
  from good_driver_fields(9) obtain cs where
    cs: "get_cookies good_driver = Inr cs" "set_cookies [] cs = Inr (lq_session good_query)"
    by blast
  show ?thesis
    by (simp add: webvpn_login_def login_run_defs good_driver_fields(1-7) cs good_wait)
       (simp add: good_query_def ustr_def)
qed

lemma broken_login:
  "webvpn_login broken_driver (ustr ''u'') (ustr ''p'') idle_machine =
     Some (Inl WebDriverException,
           \<lparr>browser_running = False,
            printed = [''Browser opened. Logging in automatically...'',
                       ''An error occurred during login. Try logging in manually.'',
                       CHR 0x0A # ''Browser closed.'']\<rparr>)"
  by (simp add: webvpn_login_def login_run_defs broken_driver_def good_driver_fields(1-7))

lemma manual_login:
  "webvpn_login_manual good_driver idle_machine =
     Some (Inr good_query,
           \<lparr>browser_running = False,
            printed = [''Browser opened. Please log in through the browser interface.'',
                       ''Press Enter after you have successfully logged in...'',
                       CHR 0x0A # ''Browser closed.'']\<rparr>)"
proof -
  from good_driver_fields(9) obtain cs where
    cs: "get_cookies good_driver = Inr cs" "set_cookies [] cs = Inr (lq_session good_query)"
    by blast
  show ?thesis
    by (simp add: webvpn_login_manual_def login_run_defs good_driver_fields(1-7) cs)
       (simp add: good_query_def ustr_def)
qed

section \<open>The claims\<close>

text \<open>
  C1 (amended). \<open>get_json\<close> fails when the HTTP status is not 200 and when the status
  member of the decoded envelope does not compare equal to 1; it succeeds exactly when the
  request is answered with HTTP status 200, the body decodes and the status member compares
  equal to 1, and it
  then returns the whole envelope, whose \<open>data\<close> member the callers read themselves.
\<close>

theorem get_json_contract:
  "(server w (get_request self u ps) = Inr resp \<longrightarrow> status_code resp \<noteq> 200 \<longrightarrow>
      fst (get_json self w u ps) = Inl AssertionError) \<and>
   (server w (get_request self u ps) = Inr resp \<longrightarrow> json_body resp = Some response_json \<longrightarrow>
    py_getitem response_json (ustr ''status'') = Inr st \<longrightarrow> \<not> py_eq_int st 1 \<longrightarrow>
      fst (get_json self w u ps) = Inl AssertionError) \<and>
   (fst (get_json self w u ps) = Inr r \<longleftrightarrow>
      (\<exists>resp. server w (get_request self u ps) = Inr resp \<and> status_code resp = 200 \<and>
         json_body resp = Some r \<and>
         (\<exists>st. py_getitem r (ustr ''status'') = Inr st \<and> py_eq_int st 1)))"
proof (intro conjI impI)
  assume "server w (get_request self u ps) = Inr resp" and "status_code resp \<noteq> 200"
  then show "fst (get_json self w u ps) = Inl AssertionError"
    by (simp add: get_json_fst)
next
  assume "server w (get_request self u ps) = Inr resp" and "json_body resp = Some response_json"
    and "py_getitem response_json (ustr ''status'') = Inr st" and "\<not> py_eq_int st 1"
  then show "fst (get_json self w u ps) = Inl AssertionError"
    by (simp add: get_json_fst)
next
  show "fst (get_json self w u ps) = Inr r \<longleftrightarrow>
      (\<exists>resp. server w (get_request self u ps) = Inr resp \<and> status_code resp = 200 \<and>
         json_body resp = Some r \<and>
         (\<exists>st. py_getitem r (ustr ''status'') = Inr st \<and> py_eq_int st 1))"
  proof (cases "server w (get_request self u ps)")
    case (Inl e)
    then show ?thesis by (simp add: get_json_fst)
  next
    case (Inr answer)
    then show ?thesis
      by (cases "json_body answer") (auto simp: get_json_fst and_then_eq_Inr split: if_splits)
  qed
qed

theorem get_json_contract_witness:
  "server not_found_world (get_request q0 LIBRARY_LIST_URL None) =
     Inr \<lparr>status_code = 404, json_body = None\<rparr> \<and>
   fst (get_json q0 not_found_world LIBRARY_LIST_URL None) = Inl AssertionError \<and>
   server refused_world (get_request q0 LIBRARY_LIST_URL None) = Inr (ok_response (envelope 0 JNull)) \<and>
   py_getitem (envelope 0 JNull) (ustr ''status'') = Inr (JInt 0) \<and>
   \<not> py_eq_int (JInt 0) 1 \<and>
   fst (get_json q0 refused_world LIBRARY_LIST_URL None) = Inl AssertionError \<and>
   fst (get_json q0 empty_list_world LIBRARY_LIST_URL None) = Inr (list_payload [])"
  using get_json_contract [where w = not_found_world and self = q0 and u = LIBRARY_LIST_URL
          and ps = None and resp = "\<lparr>status_code = 404, json_body = None\<rparr>"
          and response_json = JNull and st = JNull and r = JNull]
        get_json_contract [where w = refused_world and self = q0 and u = LIBRARY_LIST_URL
          and ps = None and resp = "ok_response (envelope 0 JNull)"
          and response_json = "envelope 0 JNull" and st = "JInt 0" and r = JNull]
        get_json_contract [where w = empty_list_world and self = q0 and u = LIBRARY_LIST_URL
          and ps = None and resp = "ok_response (list_payload [])"
          and response_json = JNull and st = JNull and r = "list_payload []"]
  by (simp add: not_found_world_def refused_world_def empty_list_world_def world_of_def
      fixed_server_def ok_response_def envelope_def list_payload_def ustr_def)

text \<open>
  The claim as stated fails: for the envelope \<open>{"status": 1, "data": {"list": []}}\<close> the
  call returns the envelope and not its \<open>data\<close> member.
\<close>

theorem get_json_returns_envelope:
  "fst (get_json q0 empty_list_world LIBRARY_LIST_URL None) = Inr (list_payload []) \<and>
   py_getitem (list_payload []) (ustr ''data'') = Inr (JDict [(ustr ''list'', JList [])]) \<and>
   fst (get_json q0 empty_list_world LIBRARY_LIST_URL None) \<noteq> Inr (JDict [(ustr ''list'', JList [])])"
  by (simp add: get_json_fst empty_list_world_def world_of_def fixed_server_def ok_response_def
      envelope_def list_payload_def ustr_def)



text \<open>
  C3 (amended). When the UTC offset of the local zone is the same at the current instant
  and 86400 seconds later, the date string computed for tomorrow is the date string of the
  calendar day after the one computed for today, across month and year boundaries.
\<close>

theorem tomorrow_is_next_day:
  assumes "utc_offset w (clock w + 86400) = utc_offset w (clock w)"
  shows "(let n = (clock w + utc_offset w (clock w)) div 86400 in
            date_of_day w Today = date_string (civil n) \<and>
            date_of_day w Tomorrow = date_string (next_day (civil n)))"
proof -
  let ?n = "(clock w + utc_offset w (clock w)) div 86400"
  have "(clock w + 86400 + utc_offset w (clock w + 86400)) div 86400 = ?n + 1"
    using assms by (simp add: add.commute add.left_commute)
  then have "date_of_day w Tomorrow = date_string (civil (?n + 1))"
    by (simp add: date_of_day_def strftime_Ymd_civil)
  moreover have "date_of_day w Today = date_string (civil ?n)"
    by (simp add: date_of_day_def strftime_Ymd_civil)
  ultimately show ?thesis
    by (simp add: civil_succ Let_def)
qed

theorem tomorrow_is_next_day_witness:
  "utc_offset new_year_world (clock new_year_world + 86400) =
     utc_offset new_year_world (clock new_year_world) \<and>
   date_of_day new_year_world Today = ustr ''2024-12-31'' \<and>
   date_of_day new_year_world Tomorrow = ustr ''2025-01-01'' \<and>
   civil ((clock new_year_world + utc_offset new_year_world (clock new_year_world)) div 86400) =
     (2024, 12, 31) \<and>
   next_day (2024, 12, 31) = (2025, 1, 1) \<and>
   date_string (2025, 1, 1) = ustr ''2025-01-01''"
proof -
  have h: "utc_offset new_year_world (clock new_year_world + 86400) =
             utc_offset new_year_world (clock new_year_world)"
    by (simp add: new_year_world_def world_of_def utc_def)
  have c: "civil ((clock new_year_world + utc_offset new_year_world (clock new_year_world)) div 86400) =
             (2024, 12, 31)"
    by (simp add: new_year_world_def date_run_defs)
  have n: "next_day (2024, 12, 31) = (2025, 1, 1)"
    by (simp add: next_day_def month_length_def month_lengths_def)
  have s: "date_string (2025, 1, 1) = ustr ''2025-01-01''" "date_string (2024, 12, 31) = ustr ''2024-12-31''"
    by (simp_all add: date_string_def str_int_def str_nat.simps pad2_def ustr_def)
  from tomorrow_is_next_day [OF h] c n s h show ?thesis
    by (simp add: Let_def)
qed

text \<open>
  The claim as stated fails where the offset changes within those 86400 seconds: in New
  York at 00:30 on 2024-11-03, the day daylight saving time ends, 86400 seconds later it is
  23:30 of the same day, and both tags give 2024-11-03.
\<close>

theorem tomorrow_same_date_at_dst_end:
  "date_of_day dst_world Today = ustr ''2024-11-03'' \<and>
   date_of_day dst_world Tomorrow = ustr ''2024-11-03'' \<and>
   date_of_day dst_world Tomorrow \<noteq> ustr ''2024-11-04''"
  by (simp add: dst_world_def date_run_defs)

text \<open>
  C4 (amended). When every entry of the payload reports \<open>0 \<le> UnavailableSpace \<le> TotalCount\<close>,
  every section that \<open>get_library_sections\<close> returns satisfies \<open>0 \<le> available \<le> total\<close>.
  The code itself neither checks nor clamps the two counts.
\<close>

theorem section_available_in_range:
  assumes "fst (get_library_sections self w floor day) = Inr secs"
    and "fst (get_json self w (sections_url floor (date_of_day w day)) None) = Inr response_json"
    and "child_area_of response_json = Inr data_list" and "py_iter data_list = Inr ds"
    and "\<forall>data\<in>set ds. \<forall>t un. get_int data (ustr ''TotalCount'') = Inr t \<longrightarrow>
           get_int data (ustr ''UnavailableSpace'') = Inr un \<longrightarrow> 0 \<le> un \<and> un \<le> t"
    and "s \<in> set secs"
  shows "0 \<le> sec_available s \<and> sec_available s \<le> sec_total s"
proof -
  from sections_from_entries [OF assms(1)] assms(2,3,4) obtain xs where
    l: "list_all2 (\<lambda>data x. section_of floor data = Inr x)
             (filter (\<lambda>data. is_valid data = Inr True) ds) xs"
    and s: "secs = sort_key sec_id xs"
    by auto
  from s assms(6) have "s \<in> set xs" by simp
  from list_all2_pick [OF l this] obtain data where
    d: "data \<in> set ds" "section_of floor data = Inr s" by auto
  from section_of_Inr [OF d(2)] obtain un where
    "get_int data (ustr ''TotalCount'') = Inr (sec_total s)"
    "get_int data (ustr ''UnavailableSpace'') = Inr un" "sec_available s = sec_total s - un"
    by blast
  with assms(5) d(1) show ?thesis by fastforce
qed

theorem section_available_in_range_witness:
  "fst (get_library_sections q0 sections_world floor7 Today) =
     Inr [section_of_counts 2 4 0, section_of_counts 5 10 7] \<and>
   0 \<le> sec_available (section_of_counts 5 10 7) \<and>
   sec_available (section_of_counts 5 10 7) \<le> sec_total (section_of_counts 5 10 7)"
proof -
  let ?rj = "child_areas [area_entry 5 1 10 3, area_entry 2 1 4 4, area_entry 9 0 6 1]"
  let ?ds = "[area_entry 5 1 10 3, area_entry 2 1 4 4, area_entry 9 0 6 1]"
  have 1: "fst (get_json q0 sections_world (sections_url floor7 (date_of_day sections_world Today)) None)
             = Inr ?rj"
    by (simp add: sections_world_def run_defs)
  have 2: "child_area_of ?rj = Inr (JList ?ds)"
    by (simp add: run_defs)
  have 3: "py_iter (JList ?ds) = Inr ?ds"
    by simp
  have 4: "\<forall>data\<in>set ?ds. \<forall>t un. get_int data (ustr ''TotalCount'') = Inr t \<longrightarrow>
             get_int data (ustr ''UnavailableSpace'') = Inr un \<longrightarrow> 0 \<le> un \<and> un \<le> t"
    by (simp add: area_entry_def run_defs)
  have 5: "section_of_counts 5 10 7 \<in> set [section_of_counts 2 4 0, section_of_counts 5 10 7]"
    by simp
  from section_available_in_range [OF sections_world_run 1 2 3 4 5] sections_world_run
  show ?thesis by simp
qed

text \<open>
  The claim as stated fails: an entry with \<open>TotalCount = 4\<close> and \<open>UnavailableSpace = 5\<close>
  becomes a section with \<open>available = -1\<close>.
\<close>

theorem overbooked_section_negative:
  "fst (get_library_sections q0 overbooked_world floor7 Today) = Inr [section_of_counts 3 4 (- 1)] \<and>
   sec_available (section_of_counts 3 4 (- 1)) < 0"
  by (simp add: get_library_sections_fst overbooked_world_def run_defs area_entry_def
      section_of_def floor7_def section_of_counts_def)

text \<open>
  C5. The lists that \<open>get_library_list\<close>, \<open>get_library_floors\<close> and \<open>get_library_sections\<close>
  return are built, entry by entry and in order (the sections then sorted), from exactly
  those entries of the payload whose \<open>isValid\<close> member compares equal to 1; an entry with
  another flag contributes nothing. \<open>get_library_seats\<close> builds one seat from every entry of
  its payload, with no filter.
\<close>

theorem validity_filter:
  "(fst (get_library_list self w) = Inr libs \<longrightarrow>
      (\<exists>response_json data_list ds.
         fst (get_json self w LIBRARY_LIST_URL None) = Inr response_json \<and>
         data_list_of response_json = Inr data_list \<and> py_iter data_list = Inr ds \<and>
         list_all2 (\<lambda>data x. library_of data = Inr x)
           (filter (\<lambda>data. is_valid data = Inr True) ds) libs)) \<and>
   (fst (get_library_floors self w library) = Inr floors \<longrightarrow>
      (\<exists>response_json data_list ds.
         fst (get_json self w (floors_url library) None) = Inr response_json \<and>
         child_area_of response_json = Inr data_list \<and> py_iter data_list = Inr ds \<and>
         list_all2 (\<lambda>data x. floor_of library data = Inr x)
           (filter (\<lambda>data. is_valid data = Inr True) ds) floors)) \<and>
   (fst (get_library_sections self w floor day) = Inr secs \<longrightarrow>
      (\<exists>response_json data_list ds xs.
         fst (get_json self w (sections_url floor (date_of_day w day)) None) = Inr response_json \<and>
         child_area_of response_json = Inr data_list \<and> py_iter data_list = Inr ds \<and>
         list_all2 (\<lambda>data x. section_of floor data = Inr x)
           (filter (\<lambda>data. is_valid data = Inr True) ds) xs \<and>
         secs = sort_key sec_id xs)) \<and>
   (fst (get_library_seats self w section dseg) = Inr seats \<longrightarrow>
      (\<exists>response_json data_list ds.
         fst (get_json self w LIBRARY_SEATS_URL
           (Some (seats_params (strftime_HM (localtime (utc_offset w) (clock w))) section dseg)))
           = Inr response_json \<and>
         data_list_of response_json = Inr data_list \<and> py_iter data_list = Inr ds \<and>
         list_all2 (\<lambda>data x. seat_of section data = Inr x) ds seats)) \<and>
   (is_valid data = Inr True \<longleftrightarrow>
      (\<exists>v. py_getitem data (ustr ''isValid'') = Inr v \<and> py_eq_int v 1))"
proof (intro conjI impI)
  assume "fst (get_library_list self w) = Inr libs"
  then show "\<exists>response_json data_list ds.
         fst (get_json self w LIBRARY_LIST_URL None) = Inr response_json \<and>
         data_list_of response_json = Inr data_list \<and> py_iter data_list = Inr ds \<and>
         list_all2 (\<lambda>data x. library_of data = Inr x)
           (filter (\<lambda>data. is_valid data = Inr True) ds) libs"
    by (auto simp: get_library_list_fst and_then_eq_Inr dest!: comprehension_Inr)
next
  assume "fst (get_library_floors self w library) = Inr floors"
  then show "\<exists>response_json data_list ds.
         fst (get_json self w (floors_url library) None) = Inr response_json \<and>
         child_area_of response_json = Inr data_list \<and> py_iter data_list = Inr ds \<and>
         list_all2 (\<lambda>data x. floor_of library data = Inr x)
           (filter (\<lambda>data. is_valid data = Inr True) ds) floors"
    by (auto simp: get_library_floors_fst and_then_eq_Inr split: if_splits dest!: comprehension_Inr)
next
  assume "fst (get_library_sections self w floor day) = Inr secs"
  then show "\<exists>response_json data_list ds xs.
         fst (get_json self w (sections_url floor (date_of_day w day)) None) = Inr response_json \<and>
         child_area_of response_json = Inr data_list \<and> py_iter data_list = Inr ds \<and>
         list_all2 (\<lambda>data x. section_of floor data = Inr x)
           (filter (\<lambda>data. is_valid data = Inr True) ds) xs \<and>
         secs = sort_key sec_id xs"
    by (rule sections_from_entries)
next
  assume "fst (get_library_seats self w section dseg) = Inr seats"
  then show "\<exists>response_json data_list ds.
         fst (get_json self w LIBRARY_SEATS_URL
           (Some (seats_params (strftime_HM (localtime (utc_offset w) (clock w))) section dseg)))
           = Inr response_json \<and>
         data_list_of response_json = Inr data_list \<and> py_iter data_list = Inr ds \<and>
         list_all2 (\<lambda>data x. seat_of section data = Inr x) ds seats"
    by (auto simp: get_library_seats_fst and_then_eq_Inr dest!: comprehension_Inr)
qed (rule is_valid_True_iff)

theorem validity_filter_witness:
  "fst (get_library_list q0 libraries_world) = Inr [library1] \<and>
   fst (get_library_floors q0 sections_world library1) = Inr [floor7\<lparr>floor_id := 5\<rparr>, floor7\<lparr>floor_id := 2\<rparr>] \<and>
   fst (get_library_sections q0 sections_world floor7 Today) =
     Inr [section_of_counts 2 4 0, section_of_counts 5 10 7] \<and>
   fst (get_library_seats q0 (seats_world 0) (section_of_counts 5 10 7) (segment Today)) =
     Inr [seat_of_status 1 1, seat_of_status 2 9] \<and>
   is_valid (library_entry 1 1) = Inr True \<and>
   is_valid (library_entry 2 0) = Inr False \<and>
   list_all2 (\<lambda>data x. library_of data = Inr x)
     (filter (\<lambda>data. is_valid data = Inr True) [library_entry 1 1, library_entry 2 0]) [library1]"
proof -
  have libs: "fst (get_library_list q0 libraries_world) = Inr [library1]"
    by (simp add: get_library_list_fst libraries_world_def run_defs library_entry_def
        library_of_def library1_def)
  have floors: "fst (get_library_floors q0 sections_world library1) =
                  Inr [floor7\<lparr>floor_id := 5\<rparr>, floor7\<lparr>floor_id := 2\<rparr>]"
    by (simp add: get_library_floors_fst sections_world_def run_defs area_entry_def
        floor_of_def library1_def floor7_def)
  have seats: "fst (get_library_seats q0 (seats_world 0) (section_of_counts 5 10 7) (segment Today)) =
                 Inr [seat_of_status 1 1, seat_of_status 2 9]"
    by (simp add: get_library_seats_fst seats_world_def run_defs seat_entry_def
        seat_of_def seat_of_status_def section_of_counts_def)
  have flags: "is_valid (library_entry 1 1) = Inr True" "is_valid (library_entry 2 0) = Inr False"
    by (simp_all add: library_entry_def run_defs)
  have payload: "fst (get_json q0 libraries_world LIBRARY_LIST_URL None) =
                   Inr (list_payload [library_entry 1 1, library_entry 2 0])"
                "data_list_of (list_payload [library_entry 1 1, library_entry 2 0]) =
                   Inr (JList [library_entry 1 1, library_entry 2 0])"
    by (simp_all add: libraries_world_def run_defs)
  from validity_filter [where self = q0 and w = libraries_world and libs = "[library1]",
         THEN conjunct1, THEN mp, OF libs]
  obtain response_json data_list ds where
    "fst (get_json q0 libraries_world LIBRARY_LIST_URL None) = Inr response_json"
    "data_list_of response_json = Inr data_list" "py_iter data_list = Inr ds"
    and l: "list_all2 (\<lambda>data x. library_of data = Inr x)
           (filter (\<lambda>data. is_valid data = Inr True) ds) [library1]"
    by blast
  with payload have "ds = [library_entry 1 1, library_entry 2 0]"
    by auto
  with l have "list_all2 (\<lambda>data x. library_of data = Inr x)
     (filter (\<lambda>data. is_valid data = Inr True) [library_entry 1 1, library_entry 2 0]) [library1]"
    by simp
  with libs floors sections_world_run seats flags show ?thesis by simp
qed

text \<open>
  C6. Whatever the floor, the day tag and the payload, a list that \<open>get_library_sections\<close>
  returns is sorted in ascending order of the section identifier.
\<close>

theorem sections_sorted:
  "fst (get_library_sections self w floor day) = Inr secs \<Longrightarrow> sorted (map sec_id secs)"
  by (auto simp: get_library_sections_fst and_then_eq_Inr)

theorem sections_sorted_witness:
  "fst (get_library_sections q0 sections_world floor7 Today) =
     Inr [section_of_counts 2 4 0, section_of_counts 5 10 7] \<and>
   sorted (map sec_id [section_of_counts 2 4 0, section_of_counts 5 10 7])"
  using sections_sorted [OF sections_world_run] sections_world_run by simp

text \<open>
  C7. \<open>get_library_seats\<close> issues one request, to the seats URL, whose \<open>startTime\<close> is the
  local wall-clock time in whole minutes, written \<open>HH:MM\<close>, when the tag of the day segment
  is today, and the opening time of the day segment when the tag is tomorrow; its \<open>endTime\<close>
  is the closing time of the day segment in both cases.
\<close>

theorem seats_query_times:
  "\<exists>ps. sent (snd (get_library_seats self w section dseg)) =
          sent w @ [get_request self LIBRARY_SEATS_URL (Some ps)] \<and>
        map_of ps (ustr ''startTime'') =
          Some (JStr (case day_day dseg of
                        Today \<Rightarrow>
                          (let m = (clock w + utc_offset w (clock w)) mod 86400 div 60
                           in pad2 (m div 60) @ ustr '':'' @ pad2 (m mod 60))
                      | Tomorrow \<Rightarrow> day_startTime dseg)) \<and>
        map_of ps (ustr ''endTime'') = Some (JStr (day_endTime dseg)) \<and>
        map_of ps (ustr ''area'') = Some (JInt (sec_id section)) \<and>
        map_of ps (ustr ''segment'') = Some (JInt (day_id dseg)) \<and>
        map_of ps (ustr ''day'') = Some (JStr (day_date dseg))"
proof -
  let ?now = "strftime_HM (localtime (utc_offset w) (clock w))"
  have "sent (snd (get_library_seats self w section dseg)) =
          sent w @ [get_request self LIBRARY_SEATS_URL (Some (seats_params ?now section dseg))]"
    by (simp add: get_library_seats_snd get_json_snd)
  moreover have "map_of (seats_params ?now section dseg) (ustr ''startTime'') =
          Some (JStr (case day_day dseg of
                        Today \<Rightarrow>
                          (let m = (clock w + utc_offset w (clock w)) mod 86400 div 60
                           in pad2 (m div 60) @ ustr '':'' @ pad2 (m mod 60))
                      | Tomorrow \<Rightarrow> day_startTime dseg))"
    by (simp add: seats_params_def ustr_def strftime_HM_minutes split: Day.splits)
  moreover have "map_of (seats_params ?now section dseg) (ustr ''endTime'') = Some (JStr (day_endTime dseg))"
    "map_of (seats_params ?now section dseg) (ustr ''area'') = Some (JInt (sec_id section))"
    "map_of (seats_params ?now section dseg) (ustr ''segment'') = Some (JInt (day_id dseg))"
    "map_of (seats_params ?now section dseg) (ustr ''day'') = Some (JStr (day_date dseg))"
    by (simp_all add: seats_params_def ustr_def)
  ultimately show ?thesis by blast
qed

theorem seats_query_times_witness:
  "map_of (the (req_params (last (sent (snd
      (get_library_seats q0 (seats_world 45296) (section_of_counts 5 10 7) (segment Today)))))))
      (ustr ''startTime'') = Some (JStr (ustr ''12:34'')) \<and>
   map_of (the (req_params (last (sent (snd
      (get_library_seats q0 (seats_world 45296) (section_of_counts 5 10 7) (segment Tomorrow)))))))
      (ustr ''startTime'') = Some (JStr (ustr ''08:00'')) \<and>
   map_of (the (req_params (last (sent (snd
      (get_library_seats q0 (seats_world 45296) (section_of_counts 5 10 7) (segment Today)))))))
      (ustr ''endTime'') = Some (JStr (ustr ''22:00''))"
proof -
  have clock: "clock (seats_world 45296) = 45296" "utc_offset (seats_world 45296) 45296 = 0"
    by (simp_all add: seats_world_def world_of_def utc_def)
  from seats_query_times [of q0 "seats_world 45296" "section_of_counts 5 10 7" "segment Today"]
  have today: "map_of (the (req_params (last (sent (snd
      (get_library_seats q0 (seats_world 45296) (section_of_counts 5 10 7) (segment Today)))))))
      (ustr ''startTime'') = Some (JStr (ustr ''12:34''))"
    "map_of (the (req_params (last (sent (snd
      (get_library_seats q0 (seats_world 45296) (section_of_counts 5 10 7) (segment Today)))))))
      (ustr ''endTime'') = Some (JStr (ustr ''22:00''))"
    by (auto simp: clock get_request_def segment_def pad2_def ustr_def)
  from seats_query_times [of q0 "seats_world 45296" "section_of_counts 5 10 7" "segment Tomorrow"]
  have "map_of (the (req_params (last (sent (snd
      (get_library_seats q0 (seats_world 45296) (section_of_counts 5 10 7) (segment Tomorrow)))))))
      (ustr ''startTime'') = Some (JStr (ustr ''08:00''))"
    by (auto simp: get_request_def segment_def)
  with today show ?thesis by simp
qed

text \<open>
  C8. Every section that \<open>get_library_sections\<close> returns was built from an entry of the
  payload, of the same identifier, whose \<open>TotalCount\<close> is the section's total and whose
  \<open>UnavailableSpace\<close> is the difference between the section's total and its available count:
  \<open>available = total - unavailable\<close>.
\<close>

theorem section_available_is_difference:
  assumes "fst (get_library_sections self w floor day) = Inr secs" and "s \<in> set secs"
  shows "\<exists>response_json data_list ds.
           fst (get_json self w (sections_url floor (date_of_day w day)) None) = Inr response_json \<and>
           child_area_of response_json = Inr data_list \<and> py_iter data_list = Inr ds \<and>
           (\<exists>data\<in>set ds. \<exists>un.
              get_int data (ustr ''id'') = Inr (sec_id s) \<and>
              get_int data (ustr ''TotalCount'') = Inr (sec_total s) \<and>
              get_int data (ustr ''UnavailableSpace'') = Inr un \<and>
              sec_available s = sec_total s - un)"
proof -
  from sections_from_entries [OF assms(1)] obtain response_json data_list ds xs where
    p: "fst (get_json self w (sections_url floor (date_of_day w day)) None) = Inr response_json"
       "child_area_of response_json = Inr data_list" "py_iter data_list = Inr ds"
    and l: "list_all2 (\<lambda>data x. section_of floor data = Inr x)
             (filter (\<lambda>data. is_valid data = Inr True) ds) xs"
    and s: "secs = sort_key sec_id xs"
    by blast
  from s assms(2) have "s \<in> set xs" by simp
  from list_all2_pick [OF l this] obtain data where
    d: "data \<in> set ds" "section_of floor data = Inr s" by auto
  from section_of_Inr [OF d(2)] d(1) p show ?thesis by blast
qed

theorem section_available_is_difference_witness:
  "fst (get_library_sections q0 sections_world floor7 Today) =
     Inr [section_of_counts 2 4 0, section_of_counts 5 10 7] \<and>
   (\<exists>response_json data_list ds.
      fst (get_json q0 sections_world (sections_url floor7 (date_of_day sections_world Today)) None)
        = Inr response_json \<and>
      child_area_of response_json = Inr data_list \<and> py_iter data_list = Inr ds \<and>
      (\<exists>data\<in>set ds. \<exists>un.
         get_int data (ustr ''id'') = Inr (sec_id (section_of_counts 5 10 7)) \<and>
         get_int data (ustr ''TotalCount'') = Inr (sec_total (section_of_counts 5 10 7)) \<and>
         get_int data (ustr ''UnavailableSpace'') = Inr un \<and>
         sec_available (section_of_counts 5 10 7) = sec_total (section_of_counts 5 10 7) - un))"
proof -
  have "section_of_counts 5 10 7 \<in> set [section_of_counts 2 4 0, section_of_counts 5 10 7]"
    by simp
  from section_available_is_difference [OF sections_world_run this] sections_world_run
  show ?thesis by blast
qed

text \<open>
  C9. \<open>status_dict\<close> labels exactly the codes 1, 4, 6 and 7 (free, under maintenance, in
  use, away for a moment, in the words of the source). \<open>get_library_seats\<close> never applies
  the table: every seat it returns carries the status code of its payload entry unchanged,
  and whenever the request succeeds and every entry has its four members (an identifier, a
  name, a type and an integer status code) the call returns, whatever the codes are,
  labelled by the table or not.
\<close>

theorem status_labels_and_passthrough:
  "status_dict 1 = Some [0x7A7A, 0x95F2] \<and>
   status_dict 4 = Some [0x7EF4, 0x62A4] \<and>
   status_dict 6 = Some [0x4F7F, 0x7528, 0x4E2D] \<and>
   status_dict 7 = Some [0x4E34, 0x65F6, 0x79BB, 0x5F00] \<and>
   dom status_dict = {1, 4, 6, 7} \<and>
   (fst (get_library_seats self w sec dseg) = Inr seats \<longrightarrow>
      (\<exists>response_json data_list ds.
         fst (get_json self w LIBRARY_SEATS_URL
           (Some (seats_params (strftime_HM (localtime (utc_offset w) (clock w))) sec dseg)))
           = Inr response_json \<and>
         data_list_of response_json = Inr data_list \<and> py_iter data_list = Inr ds \<and>
         list_all2 (\<lambda>data s. get_int data (ustr ''status'') = Inr (seat_status s)) ds seats)) \<and>
   (fst (get_json self w LIBRARY_SEATS_URL
      (Some (seats_params (strftime_HM (localtime (utc_offset w) (clock w))) sec dseg)))
      = Inr reply \<longrightarrow>
    data_list_of reply = Inr entries \<longrightarrow> py_iter entries = Inr es \<longrightarrow>
    (\<forall>data\<in>set es. \<exists>i n ty code.
       get_int data (ustr ''id'') = Inr i \<and> get_str data (ustr ''name'') = Inr n \<and>
       get_int data (ustr ''area_type'') = Inr ty \<and> get_int data (ustr ''status'') = Inr code) \<longrightarrow>
      (\<exists>result. fst (get_library_seats self w sec dseg) = Inr result \<and>
         list_all2 (\<lambda>data s. get_int data (ustr ''status'') = Inr (seat_status s)) es result))"
proof (intro conjI impI)
  show "status_dict 1 = Some [0x7A7A, 0x95F2]" "status_dict 4 = Some [0x7EF4, 0x62A4]"
    "status_dict 6 = Some [0x4F7F, 0x7528, 0x4E2D]"
    "status_dict 7 = Some [0x4E34, 0x65F6, 0x79BB, 0x5F00]"
    by (simp_all add: status_dict_def)
  show "dom status_dict = {1, 4, 6, 7}"
    by (auto simp: status_dict_def)
next
  assume "fst (get_library_seats self w sec dseg) = Inr seats"
  then show "\<exists>response_json data_list ds.
         fst (get_json self w LIBRARY_SEATS_URL
           (Some (seats_params (strftime_HM (localtime (utc_offset w) (clock w))) sec dseg)))
           = Inr response_json \<and>
         data_list_of response_json = Inr data_list \<and> py_iter data_list = Inr ds \<and>
         list_all2 (\<lambda>data s. get_int data (ustr ''status'') = Inr (seat_status s)) ds seats"
    by (rule seats_keep_codes)
next
  assume "fst (get_json self w LIBRARY_SEATS_URL
      (Some (seats_params (strftime_HM (localtime (utc_offset w) (clock w))) sec dseg)))
      = Inr reply"
    and "data_list_of reply = Inr entries" and "py_iter entries = Inr es"
    and "\<forall>data\<in>set es. \<exists>i n ty code.
       get_int data (ustr ''id'') = Inr i \<and> get_str data (ustr ''name'') = Inr n \<and>
       get_int data (ustr ''area_type'') = Inr ty \<and> get_int data (ustr ''status'') = Inr code"
  then show "\<exists>result. fst (get_library_seats self w sec dseg) = Inr result \<and>
         list_all2 (\<lambda>data s. get_int data (ustr ''status'') = Inr (seat_status s)) es result"
    by (rule seats_never_raise_on_code)
qed

theorem status_labels_and_passthrough_witness:
  "fst (get_library_seats q0 (seats_world 0) (section_of_counts 5 10 7) (segment Today)) =
     Inr [seat_of_status 1 1, seat_of_status 2 9] \<and>
   get_int (seat_entry 1 1) (ustr ''status'') = Inr 1 \<and>
   get_int (seat_entry 2 9) (ustr ''status'') = Inr 9 \<and>
   map seat_status [seat_of_status 1 1, seat_of_status 2 9] = [1, 9] \<and>
   1 \<in> dom status_dict \<and> 9 \<notin> dom status_dict"
proof -
  let ?w = "seats_world 0" and ?s = "section_of_counts 5 10 7" and ?d = "segment Today"
  let ?es = "[seat_entry 1 1, seat_entry 2 9]"
  have req: "fst (get_json q0 ?w LIBRARY_SEATS_URL
               (Some (seats_params (strftime_HM (localtime (utc_offset ?w) (clock ?w))) ?s ?d)))
               = Inr (list_payload ?es)"
    by (simp add: seats_world_def run_defs)
  have lst: "data_list_of (list_payload ?es) = Inr (JList ?es)"
    by (simp add: run_defs)
  have it: "py_iter (JList ?es) = Inr ?es"
    by simp
  have shape: "\<forall>data\<in>set ?es. \<exists>i n ty code.
       get_int data (ustr ''id'') = Inr i \<and> get_str data (ustr ''name'') = Inr n \<and>
       get_int data (ustr ''area_type'') = Inr ty \<and> get_int data (ustr ''status'') = Inr code"
    by (simp add: seat_entry_def get_int_def get_str_def ustr_def)
  have codes: "get_int (seat_entry 1 1) (ustr ''status'') = Inr 1"
    "get_int (seat_entry 2 9) (ustr ''status'') = Inr 9"
    by (simp_all add: seat_entry_def get_int_def ustr_def)
  from status_labels_and_passthrough [where self = q0 and w = "?w" and sec = "?s" and dseg = "?d"
      and reply = "list_payload ?es" and entries = "JList ?es" and es = "?es"
      and seats = "[]"]
    req lst it shape
  obtain result where r: "fst (get_library_seats q0 ?w ?s ?d) = Inr result"
    and l: "list_all2 (\<lambda>data s. get_int data (ustr ''status'') = Inr (seat_status s)) ?es result"
    by blast
  from l codes have st: "map seat_status result = [1, 9]"
    by (auto simp: list_all2_Cons1)
  have run: "fst (get_library_seats q0 ?w ?s ?d) = Inr [seat_of_status 1 1, seat_of_status 2 9]"
    by (simp add: get_library_seats_fst seats_world_def run_defs seat_entry_def
        seat_of_def seat_of_status_def section_of_counts_def)
  with r st have "map seat_status [seat_of_status 1 1, seat_of_status 2 9] = [1, 9]"
    by simp
  moreover have "1 \<in> dom status_dict" "9 \<notin> dom status_dict"
    by (simp_all add: status_dict_def)
  ultimately show ?thesis using run codes by simp
qed

text \<open>
  C10. Started on a machine with no browser running, neither login variant ends, with a
  session or with an exception, while the browser process is alive: every way out of the
  \<open>try\<close> block passes through \<open>driver.quit()\<close>, and when \<open>webdriver.Chrome\<close> itself raises no
  browser was started. A login that never ends (the poll loop, the wait for Enter) is a
  run without a result.
\<close>

theorem browser_released:
  "\<not> browser_running m \<Longrightarrow>
   (webvpn_login drv username password m = Some (r, m') \<longrightarrow> \<not> browser_running m') \<and>
   (webvpn_login_manual drv m = Some (r', m'') \<longrightarrow> \<not> browser_running m'')"
proof (intro conjI impI)
  assume idle: "\<not> browser_running m"
  {
    assume "webvpn_login drv username password m = Some (r, m')"
    then show "\<not> browser_running m'"
      unfolding webvpn_login_def by (rule scoped_browser [OF idle])
  }
  {
    assume "webvpn_login_manual drv m = Some (r', m'')"
    then show "\<not> browser_running m''"
      unfolding webvpn_login_manual_def by (rule scoped_browser [OF idle])
  }
qed

theorem browser_released_witness:
  "\<not> browser_running idle_machine \<and>
   map_option fst (webvpn_login good_driver (ustr ''u'') (ustr ''p'') idle_machine) =
     Some (Inr good_query) \<and>
   map_option (\<lambda>p. browser_running (snd p))
     (webvpn_login good_driver (ustr ''u'') (ustr ''p'') idle_machine) = Some False \<and>
   map_option fst (webvpn_login broken_driver (ustr ''u'') (ustr ''p'') idle_machine) =
     Some (Inl WebDriverException) \<and>
   map_option (\<lambda>p. browser_running (snd p))
     (webvpn_login broken_driver (ustr ''u'') (ustr ''p'') idle_machine) = Some False \<and>
   map_option fst (webvpn_login_manual good_driver idle_machine) = Some (Inr good_query) \<and>
   map_option (\<lambda>p. browser_running (snd p)) (webvpn_login_manual good_driver idle_machine) =
     Some False"
proof -
  have idle: "\<not> browser_running idle_machine"
    by (simp add: idle_machine_def)
  from browser_released [OF idle] good_login broken_login manual_login idle
  show ?thesis by simp
qed

end
